theory Spec2Isabelle
  imports Complex_Main
begin

section \<open>Convex quantile and expectile regression models with sweet-spot constraints\<close>

text \<open>
  A shallow embedding of the model classes of \<^verbatim>\<open>deabook/utils/CQERZG1.py\<close>,
  \<^verbatim>\<open>CQERZG2.py\<close> and of the regression rule of \<^verbatim>\<open>CNLSG1.py\<close>. The Python code
  builds the expressions and constraints of an algebraic model; here the expressions
  are trees, the rule methods are functions returning either an error or a rule, and
  a constructor returns either an error or the assembled model.
\<close>

subsection \<open>Configuration constants\<close>

text \<open>
  Modelled from the spec: the module \<^verbatim>\<open>deabook/constant.py\<close>, which defines
  \<^verbatim>\<open>CET_ADDI\<close>, \<^verbatim>\<open>CET_MULT\<close>, \<^verbatim>\<open>FUN_PROD\<close>, \<^verbatim>\<open>FUN_COST\<close>, \<^verbatim>\<open>RTS_VRS1\<close> and
  \<^verbatim>\<open>RTS_CRS\<close>, is missing. The spec enumerates the error composition
  (additive, multiplicative), the returns to scale (variable, constant) and the
  frontier type (production, cost) as distinct options. The parameters are ordinary
  Python values, so each type has a third constructor for any value that is
  neither of the two constants.
\<close>

datatype cet = CET_ADDI | CET_MULT | CET_OTHER

datatype rts = RTS_VRS1 | RTS_CRS | RTS_OTHER

datatype frontier_fun = FUN_PROD | FUN_COST | FUN_OTHER

subsection \<open>Errors and indexing\<close>

datatype error = ValueError string | IndexError | TypeError | NameError

definition bindE :: "error + 'a \<Rightarrow> ('a \<Rightarrow> error + 'b) \<Rightarrow> error + 'b" where
  "bindE r f = (case r of Inl e \<Rightarrow> Inl e | Inr v \<Rightarrow> f v)"

text \<open>\<^verbatim>\<open>xs[i]\<close> for an index \<open>i \<ge> 0\<close>: IndexError out of range.\<close>

definition index1 :: "'a list \<Rightarrow> nat \<Rightarrow> error + 'a" where
  "index1 xs i = (if i < length xs then Inr (xs ! i) else Inl IndexError)"

text \<open>\<^verbatim>\<open>xs[i][j]\<close>.\<close>

definition index2 :: "'a list list \<Rightarrow> nat \<Rightarrow> nat \<Rightarrow> error + 'a" where
  "index2 xs i j = bindE (index1 xs i) (\<lambda>row. index1 row j)"

text \<open>
  \<^verbatim>\<open>self.z[i]\<close> where \<^verbatim>\<open>self.z\<close> may be \<^verbatim>\<open>None\<close>: subscripting \<^verbatim>\<open>None\<close> is a
  TypeError.
\<close>

definition zindex1 :: "'a list list option \<Rightarrow> nat \<Rightarrow> error + 'a list" where
  "zindex1 z i = (case z of None \<Rightarrow> Inl TypeError | Some zz \<Rightarrow> index1 zz i)"

definition zindex2 :: "'a list list option \<Rightarrow> nat \<Rightarrow> nat \<Rightarrow> error + 'a" where
  "zindex2 z i k = bindE (zindex1 z i) (\<lambda>row. index1 row k)"

text \<open>
  Running a generator or an index loop: the items are computed in order and the
  first error ends the run.
\<close>

fun collect :: "(error + 'a) list \<Rightarrow> error + 'a list" where
  "collect [] = Inr []"
| "collect (r # rs) =
     (case r of Inl e \<Rightarrow> Inl e
      | Inr v \<Rightarrow> (case collect rs of Inl e \<Rightarrow> Inl e | Inr vs \<Rightarrow> Inr (v # vs)))"

subsection \<open>Expressions and constraints\<close>

text \<open>
  The entries of \<^verbatim>\<open>cutactive\<close> and \<^verbatim>\<open>active\<close> are booleans or numbers; a number is
  truthy when it is not zero.
\<close>

datatype gate = GBool bool | GNum real

fun truthy :: "gate \<Rightarrow> bool" where
  "truthy (GBool b) = b"
| "truthy (GNum r) = (r \<noteq> 0)"

datatype var =
  alpha nat
  | beta nat nat
  | lamda nat
  | epsilon_plus nat
  | epsilon_minus nat
  | frontier nat
  | epsilon nat

datatype expr =
  Num real
  | V var
  | Add expr expr
  | Sub expr expr
  | Mul expr expr
  | Pow expr nat
  | Log expr

datatype relop = LE | GE | EQ

text \<open>A rule returns a relation between two expressions or \<^verbatim>\<open>Constraint.Skip\<close>.\<close>

datatype constr = Skip | Rel relop expr expr

text \<open>The value of an expression and the truth of a constraint under an assignment.\<close>

fun expr_val :: "(var \<Rightarrow> real) \<Rightarrow> expr \<Rightarrow> real" where
  "expr_val \<rho> (Num c) = c"
| "expr_val \<rho> (V v) = \<rho> v"
| "expr_val \<rho> (Add a b) = expr_val \<rho> a + expr_val \<rho> b"
| "expr_val \<rho> (Sub a b) = expr_val \<rho> a - expr_val \<rho> b"
| "expr_val \<rho> (Mul a b) = expr_val \<rho> a * expr_val \<rho> b"
| "expr_val \<rho> (Pow a n) = expr_val \<rho> a ^ n"
| "expr_val \<rho> (Log a) = ln (expr_val \<rho> a)"

fun holds :: "(var \<Rightarrow> real) \<Rightarrow> constr \<Rightarrow> bool" where
  "holds \<rho> Skip = True"
| "holds \<rho> (Rel LE a b) = (expr_val \<rho> a \<le> expr_val \<rho> b)"
| "holds \<rho> (Rel GE a b) = (expr_val \<rho> a \<ge> expr_val \<rho> b)"
| "holds \<rho> (Rel EQ a b) = (expr_val \<rho> a = expr_val \<rho> b)"

text \<open>
  Python's \<^verbatim>\<open>sum\<close>: it starts from the number 0 and adds the items from left to
  right.
\<close>

definition pysum :: "expr list \<Rightarrow> expr" where
  "pysum ts = foldl Add (Num 0) ts"

text \<open>\<^verbatim>\<open>sum\<close> over a generator whose items may raise.\<close>

definition pysum_gen :: "(error + expr) list \<Rightarrow> error + expr" where
  "pysum_gen ts = bindE (collect ts) (\<lambda>vs. Inr (pysum vs))"

text \<open>
  \<^verbatim>\<open>log\<close> of a number of the data: the natural logarithm, a ValueError for a
  number that is not positive. The logarithm is kept as a node of the tree.
\<close>

definition log_data :: "real \<Rightarrow> error + expr" where
  "log_data v = (if 0 < v then Inr (Log (Num v)) else Inl (ValueError ''math domain error''))"

subsection \<open>The model under construction\<close>

record index_sets =
  model_I :: "nat list"
  model_J :: "nat list"
  model_K :: "nat list"

record objective_component =
  obj_expr :: expr
  obj_active :: bool

text \<open>
  A declared variable with its lower bound (\<open>None\<close> when the variable is free). A
  constraint component holds the constraints of the indices whose rule did not
  return \<^verbatim>\<open>Constraint.Skip\<close>. The components \<^verbatim>\<open>log_rule\<close>, \<^verbatim>\<open>sweet_rule2\<close> and
  \<^verbatim>\<open>squared_objective\<close> exist in some models only.
\<close>

record model = index_sets +
  model_vars :: "(var \<times> real option) list"
  model_objective :: objective_component
  model_regression_rule :: "(nat \<times> constr) list"
  model_log_rule :: "(nat \<times> constr) list option"
  model_afriat_rule :: "(nat \<times> constr) list"
  model_sweet_rule :: "((nat \<times> nat) \<times> constr) list"
  model_sweet_rule2 :: "((nat \<times> nat) \<times> constr) list option"
  model_squared_objective :: "objective_component option"

text \<open>
  An indexed \<^verbatim>\<open>Constraint(index, rule=...)\<close> of a concrete model: the rule runs at
  every index in order; an index whose rule returns \<^verbatim>\<open>Constraint.Skip\<close> gets no
  constraint.
\<close>

definition Constraint :: "'i list \<Rightarrow> ('i \<Rightarrow> error + constr) \<Rightarrow> error + ('i \<times> constr) list" where
  "Constraint idx rule =
     bindE (collect (map (\<lambda>i. bindE (rule i) (\<lambda>c. Inr (i, c))) idx))
       (\<lambda>cs. Inr (filter (\<lambda>ic. snd ic \<noteq> Skip) cs))"

text \<open>
  \<^verbatim>\<open>I.nextw(i)\<close> of an ordered set: the member after \<open>i\<close>, the first member after
  the last one.
\<close>

definition nextw :: "nat list \<Rightarrow> nat \<Rightarrow> nat" where
  "nextw S i = S ! ((length (takeWhile (\<lambda>e. e \<noteq> i) S) + 1) mod length S)"

text \<open>The variables declared by the constructors, with their bounds.\<close>

definition declare_vars :: "nat list \<Rightarrow> nat list \<Rightarrow> nat list \<Rightarrow> (var \<times> real option) list" where
  "declare_vars I J K =
     map (\<lambda>i. (alpha i, None)) I
     @ map (\<lambda>ij. (beta (fst ij) (snd ij), Some 0)) (List.product I J)
     @ map (\<lambda>k. (lamda k, None)) K
     @ map (\<lambda>i. (epsilon_plus i, Some 0)) I
     @ map (\<lambda>i. (epsilon_minus i, Some 0)) I
     @ map (\<lambda>i. (frontier i, Some 0)) I"

subsection \<open>CQRZG1\<close>

record CQRZG1 =
  self_y :: "real list"
  self_x :: "real list list"
  self_z :: "real list list option"
  self_tau :: real
  self_cet :: cet
  self_fun :: frontier_fun
  self_rts :: rts
  self_cutactive :: "gate list list"

text \<open>\<^verbatim>\<open>sum(model.beta[c, j] * self.x[i][j] for j in model.J)\<close>\<close>

definition beta_x_sum :: "real list list \<Rightarrow> nat list \<Rightarrow> nat \<Rightarrow> nat \<Rightarrow> error + expr" where
  "beta_x_sum X J c i =
     pysum_gen (map (\<lambda>j. bindE (index2 X i j) (\<lambda>v. Inr (Mul (V (beta c j)) (Num v)))) J)"

definition sum_beta_x :: "'a CQRZG1_scheme \<Rightarrow> 'b index_sets_scheme \<Rightarrow> nat \<Rightarrow> nat \<Rightarrow> error + expr" where
  "sum_beta_x self m c i = beta_x_sum (self_x self) (model_J m) c i"

text \<open>\<^verbatim>\<open>sum(model.lamda[k] * self.z[i][k] for k in model.K)\<close>\<close>

definition sum_lamda_z :: "'a CQRZG1_scheme \<Rightarrow> 'b index_sets_scheme \<Rightarrow> nat \<Rightarrow> error + expr" where
  "sum_lamda_z self m i =
     pysum_gen (map (\<lambda>k. bindE (zindex2 (self_z self) i k) (\<lambda>v. Inr (Mul (V (lamda k)) (Num v))))
       (model_K m))"

definition objective_rule :: "'a CQRZG1_scheme \<Rightarrow> 'b index_sets_scheme \<Rightarrow> expr" where
  "objective_rule self m =
     Add (Mul (Num (1 - self_tau self)) (pysum (map (\<lambda>i. V (epsilon_plus i)) (model_I m))))
         (Mul (Num (self_tau self)) (pysum (map (\<lambda>i. V (epsilon_minus i)) (model_I m))))"

definition regression_rule ::
  "'a CQRZG1_scheme \<Rightarrow> error + ('b index_sets_scheme \<Rightarrow> nat \<Rightarrow> error + constr)" where
  "regression_rule self =
     (if self_cet self = CET_ADDI then
        (if self_rts self = RTS_VRS1 then
           Inr (\<lambda>m i.
             bindE (index1 (self_y self) i) (\<lambda>yi.
             bindE (sum_beta_x self m i i) (\<lambda>bx.
             bindE (sum_lamda_z self m i) (\<lambda>lz.
             Inr (Rel EQ (Num yi)
                   (Add (Sub (Sub (Add (V (alpha i)) bx) lz) (V (epsilon_minus i)))
                        (V (epsilon_plus i))))))))
         else if self_rts self = RTS_CRS then
           Inr (\<lambda>m i.
             bindE (index1 (self_y self) i) (\<lambda>yi.
             bindE (sum_beta_x self m i i) (\<lambda>bx.
             bindE (sum_lamda_z self m i) (\<lambda>lz.
             Inr (Rel EQ (Num yi)
                   (Add (Sub (Add bx lz) (V (epsilon_minus i)))
                        (V (epsilon_plus i))))))))
         else Inl (ValueError ''Undefined model parameters.''))
      else if self_cet self = CET_MULT then
        Inr (\<lambda>m i.
          bindE (index1 (self_y self) i) (\<lambda>yi.
          bindE (log_data yi) (\<lambda>ly.
          bindE (sum_lamda_z self m i) (\<lambda>lz.
          Inr (Rel EQ ly
                (Add (Sub (Sub (Log (Add (V (frontier i)) (Num 1))) lz) (V (epsilon_minus i)))
                     (V (epsilon_plus i))))))))
      else Inl (ValueError ''Undefined model parameters.''))"

definition log_rule ::
  "'a CQRZG1_scheme \<Rightarrow> error + ('b index_sets_scheme \<Rightarrow> nat \<Rightarrow> error + constr)" where
  "log_rule self =
     (if self_cet self = CET_MULT then
        (if self_rts self = RTS_VRS1 then
           Inr (\<lambda>m i.
             bindE (sum_beta_x self m i i) (\<lambda>bx.
             Inr (Rel EQ (V (frontier i)) (Sub (Add (V (alpha i)) bx) (Num 1)))))
         else if self_rts self = RTS_CRS then
           Inr (\<lambda>m i.
             bindE (sum_beta_x self m i i) (\<lambda>bx.
             Inr (Rel EQ (V (frontier i)) (Sub bx (Num 1)))))
         else Inl (ValueError ''Undefined model parameters.''))
      else Inl (ValueError ''Undefined model parameters.''))"

text \<open>
  The local \<^verbatim>\<open>__operator\<close> of the Afriat and sweet-spot rule methods: bound to
  \<^verbatim>\<open>NumericValue.__le__\<close> or \<^verbatim>\<open>NumericValue.__ge__\<close>, left unbound for any other
  frontier type.
\<close>

definition operator_of :: "frontier_fun \<Rightarrow> relop option" where
  "operator_of f =
     (if f = FUN_PROD then Some LE else if f = FUN_COST then Some GE else None)"

text \<open>
  The call \<^verbatim>\<open>__operator(lhs, rhs)\<close> inside a rule: the name is looked up first (a
  NameError when it is unbound), then the two arguments are computed.
\<close>

definition call_operator :: "relop option \<Rightarrow> error + expr \<Rightarrow> error + expr \<Rightarrow> error + constr" where
  "call_operator opr lhs rhs =
     (case opr of None \<Rightarrow> Inl NameError
      | Some rel \<Rightarrow> bindE lhs (\<lambda>a. bindE rhs (\<lambda>b. Inr (Rel rel a b))))"

text \<open>\<^verbatim>\<open>model.alpha[c] + sum(...)\<close>\<close>

definition alpha_plus :: "nat \<Rightarrow> error + expr \<Rightarrow> error + expr" where
  "alpha_plus c s = bindE s (\<lambda>bx. Inr (Add (V (alpha c)) bx))"

definition afriat_rule ::
  "'a CQRZG1_scheme \<Rightarrow> error + ('b index_sets_scheme \<Rightarrow> nat \<Rightarrow> error + constr)" where
  "afriat_rule self =
     (let opr = operator_of (self_fun self) in
      if self_cet self = CET_ADDI then
        (if self_rts self = RTS_VRS1 then
           Inr (\<lambda>m i. call_operator opr
                  (alpha_plus i (sum_beta_x self m i i))
                  (alpha_plus (nextw (model_I m) i) (sum_beta_x self m (nextw (model_I m) i) i)))
         else if self_rts self = RTS_CRS then
           Inr (\<lambda>m i. call_operator opr
                  (sum_beta_x self m i i)
                  (sum_beta_x self m (nextw (model_I m) i) i))
         else Inl (ValueError ''Undefined model parameters.''))
      else if self_cet self = CET_MULT then
        (if self_rts self = RTS_VRS1 then
           Inr (\<lambda>m i. call_operator opr
                  (alpha_plus i (sum_beta_x self m i i))
                  (alpha_plus (nextw (model_I m) i) (sum_beta_x self m (nextw (model_I m) i) i)))
         else if self_rts self = RTS_CRS then
           Inr (\<lambda>m i. call_operator opr
                  (sum_beta_x self m i i)
                  (sum_beta_x self m (nextw (model_I m) i) i))
         else Inl (ValueError ''Undefined model parameters.''))
      else Inl (ValueError ''Undefined model parameters.''))"

definition sweet_rule ::
  "'a CQRZG1_scheme \<Rightarrow> error + ('b index_sets_scheme \<Rightarrow> nat \<Rightarrow> nat \<Rightarrow> error + constr)" where
  "sweet_rule self =
     (let opr = operator_of (self_fun self) in
      if self_cet self = CET_ADDI then
        (if self_rts self = RTS_VRS1 then
           Inr (\<lambda>m i h.
             bindE (index2 (self_cutactive self) i h) (\<lambda>g.
             if truthy g then
               (if i = h then Inr Skip
                else call_operator opr
                       (alpha_plus i (sum_beta_x self m i i))
                       (alpha_plus h (sum_beta_x self m h i)))
             else Inr Skip))
         else if self_rts self = RTS_CRS then
           Inr (\<lambda>m i h.
             bindE (index2 (self_cutactive self) i h) (\<lambda>g.
             if truthy g then
               (if i = h then Inr Skip
                else call_operator opr
                       (sum_beta_x self m i i)
                       (sum_beta_x self m h i))
             else Inr Skip))
         else Inl (ValueError ''Undefined model parameters.''))
      else if self_cet self = CET_MULT then
        (if self_rts self = RTS_VRS1 then
           Inr (\<lambda>m i h.
             bindE (index2 (self_cutactive self) i h) (\<lambda>g.
             if truthy g then
               (if i = h then Inr Skip
                else call_operator opr
                       (alpha_plus i (sum_beta_x self m i i))
                       (alpha_plus h (sum_beta_x self m h i)))
             else Inr Skip))
         else if self_rts self = RTS_CRS then
           Inr (\<lambda>m i h.
             bindE (index2 (self_cutactive self) i h) (\<lambda>g.
             if truthy g then
               (if i = h then Inr Skip
                else call_operator opr
                       (sum_beta_x self m i i)
                       (sum_beta_x self m h i))
             else Inr Skip))
         else Inl (ValueError ''Undefined model parameters.''))
      else Inl (ValueError ''Undefined model parameters.''))"

text \<open>
  \<^verbatim>\<open>CQRZG1.__init__\<close>: the index sets, the variables, the objective, then the
  constraint components in the order of the source. A concrete model builds each
  component when it is attached, so a rule that raises ends the construction.
\<close>

definition CQRZG1_init :: "'a CQRZG1_scheme \<Rightarrow> error + model" where
  "CQRZG1_init self =
     bindE (index1 (self_x self) 0) (\<lambda>x0.
     bindE (zindex1 (self_z self) 0) (\<lambda>z0.
     let s = \<lparr>model_I = [0..<length (self_y self)],
                model_J = [0..<length x0],
                model_K = [0..<length z0]\<rparr> in
     bindE (regression_rule self) (\<lambda>rr.
     bindE (Constraint (model_I s) (rr s)) (\<lambda>reg.
     bindE (if self_cet self = CET_MULT then
              bindE (log_rule self) (\<lambda>lr.
              bindE (Constraint (model_I s) (lr s)) (\<lambda>lg. Inr (Some lg)))
            else Inr None) (\<lambda>lg.
     bindE (afriat_rule self) (\<lambda>ar.
     bindE (Constraint (model_I s) (ar s)) (\<lambda>afr.
     bindE (sweet_rule self) (\<lambda>sr.
     bindE (Constraint (List.product (model_I s) (model_I s)) (\<lambda>ih. sr s (fst ih) (snd ih))) (\<lambda>sw.
     Inr \<lparr>model_I = model_I s, model_J = model_J s, model_K = model_K s,
          model_vars = declare_vars (model_I s) (model_J s) (model_K s),
          model_objective = \<lparr>obj_expr = objective_rule self s, obj_active = True\<rparr>,
          model_regression_rule = reg,
          model_log_rule = lg,
          model_afriat_rule = afr,
          model_sweet_rule = sw,
          model_sweet_rule2 = None,
          model_squared_objective = None\<rparr>)))))))))"

subsection \<open>CERZG1\<close>

definition squared_objective_rule :: "'a CQRZG1_scheme \<Rightarrow> 'b index_sets_scheme \<Rightarrow> expr" where
  "squared_objective_rule self m =
     Add (Mul (Num (1 - self_tau self)) (pysum (map (\<lambda>i. Pow (V (epsilon_plus i)) 2) (model_I m))))
         (Mul (Num (self_tau self)) (pysum (map (\<lambda>i. Pow (V (epsilon_minus i)) 2) (model_I m))))"

text \<open>
  \<^verbatim>\<open>CERZG1.__init__\<close>: the constructor of \<^verbatim>\<open>CQRZG1\<close>, then the objective is
  deactivated and the squared objective is attached.
\<close>

definition CERZG1_init :: "'a CQRZG1_scheme \<Rightarrow> error + model" where
  "CERZG1_init self =
     bindE (CQRZG1_init self) (\<lambda>m.
     Inr (m\<lparr>model_objective := (model_objective m)\<lparr>obj_active := False\<rparr>,
            model_squared_objective :=
              Some \<lparr>obj_expr = squared_objective_rule self m, obj_active = True\<rparr>\<rparr>))"

subsection \<open>CQRZG2\<close>

text \<open>
  The constructor stores \<^verbatim>\<open>to_2d_list(trans_list(active))\<close>. The two helpers of
  \<^verbatim>\<open>tools.py\<close> are missing, so their result is taken as given: the field
  \<^verbatim>\<open>self_active\<close> is the normalised matrix that the phase-2 rule reads.
\<close>

record CQRZG2 = CQRZG1 +
  self_active :: "gate list list"

definition sweet_rule2 ::
  "'a CQRZG2_scheme \<Rightarrow> error + ('b index_sets_scheme \<Rightarrow> nat \<Rightarrow> nat \<Rightarrow> error + constr)" where
  "sweet_rule2 self =
     (let opr = operator_of (self_fun self) in
      if self_cet self = CET_ADDI then
        (if self_rts self = RTS_VRS1 then
           Inr (\<lambda>m i h.
             bindE (index2 (self_active self) i h) (\<lambda>g.
             if truthy g then
               (if i = h then Inr Skip
                else call_operator opr
                       (alpha_plus i (sum_beta_x self m i i))
                       (alpha_plus h (sum_beta_x self m h i)))
             else Inr Skip))
         else if self_rts self = RTS_CRS then
           Inr (\<lambda>m i h.
             bindE (index2 (self_active self) i h) (\<lambda>g.
             if truthy g then
               (if i = h then Inr Skip
                else call_operator opr
                       (alpha_plus i (sum_beta_x self m i i))
                       (alpha_plus h (sum_beta_x self m h i)))
             else Inr Skip))
         else Inl (ValueError ''Undefined model parameters.''))
      else if self_cet self = CET_MULT then
        (if self_rts self = RTS_VRS1 then
           Inr (\<lambda>m i h.
             bindE (index2 (self_active self) i h) (\<lambda>g.
             if truthy g then
               (if i = h then Inr Skip
                else call_operator opr
                       (alpha_plus i (sum_beta_x self m i i))
                       (alpha_plus h (sum_beta_x self m h i)))
             else Inr Skip))
         else if self_rts self = RTS_CRS then
           Inr (\<lambda>m i h.
             bindE (index2 (self_active self) i h) (\<lambda>g.
             if truthy g then
               (if i = h then Inr Skip
                else call_operator opr
                       (sum_beta_x self m i i)
                       (sum_beta_x self m h i))
             else Inr Skip))
         else Inl (ValueError ''Undefined model parameters.''))
      else Inl (ValueError ''Undefined model parameters.''))"

text \<open>
  \<^verbatim>\<open>CQRZG2.__init__\<close> repeats the constructor of \<^verbatim>\<open>CQRZG1\<close> with the rule methods
  of \<^verbatim>\<open>CQRZG1\<close> and attaches \<^verbatim>\<open>sweet_rule2\<close> last.
\<close>

definition CQRZG2_init :: "'a CQRZG2_scheme \<Rightarrow> error + model" where
  "CQRZG2_init self =
     bindE (index1 (self_x self) 0) (\<lambda>x0.
     bindE (zindex1 (self_z self) 0) (\<lambda>z0.
     let s = \<lparr>model_I = [0..<length (self_y self)],
                model_J = [0..<length x0],
                model_K = [0..<length z0]\<rparr> in
     bindE (regression_rule self) (\<lambda>rr.
     bindE (Constraint (model_I s) (rr s)) (\<lambda>reg.
     bindE (if self_cet self = CET_MULT then
              bindE (log_rule self) (\<lambda>lr.
              bindE (Constraint (model_I s) (lr s)) (\<lambda>lg. Inr (Some lg)))
            else Inr None) (\<lambda>lg.
     bindE (afriat_rule self) (\<lambda>ar.
     bindE (Constraint (model_I s) (ar s)) (\<lambda>afr.
     bindE (sweet_rule self) (\<lambda>sr.
     bindE (Constraint (List.product (model_I s) (model_I s)) (\<lambda>ih. sr s (fst ih) (snd ih))) (\<lambda>sw.
     bindE (sweet_rule2 self) (\<lambda>sr2.
     bindE (Constraint (List.product (model_I s) (model_I s)) (\<lambda>ih. sr2 s (fst ih) (snd ih))) (\<lambda>sw2.
     Inr \<lparr>model_I = model_I s, model_J = model_J s, model_K = model_K s,
          model_vars = declare_vars (model_I s) (model_J s) (model_K s),
          model_objective = \<lparr>obj_expr = objective_rule self s, obj_active = True\<rparr>,
          model_regression_rule = reg,
          model_log_rule = lg,
          model_afriat_rule = afr,
          model_sweet_rule = sw,
          model_sweet_rule2 = Some sw2,
          model_squared_objective = None\<rparr>)))))))))))"

subsection \<open>CERZG2\<close>

definition squared_objective_rule2 :: "'a CQRZG2_scheme \<Rightarrow> 'b index_sets_scheme \<Rightarrow> expr" where
  "squared_objective_rule2 self m =
     Add (Mul (Num (1 - self_tau self)) (pysum (map (\<lambda>i. Pow (V (epsilon_plus i)) 2) (model_I m))))
         (Mul (Num (self_tau self)) (pysum (map (\<lambda>i. Pow (V (epsilon_minus i)) 2) (model_I m))))"

definition CERZG2_init :: "'a CQRZG2_scheme \<Rightarrow> error + model" where
  "CERZG2_init self =
     bindE (CQRZG2_init self) (\<lambda>m.
     Inr (m\<lparr>model_objective := (model_objective m)\<lparr>obj_active := False\<rparr>,
            model_squared_objective :=
              Some \<lparr>obj_expr = squared_objective_rule2 self m, obj_active = True\<rparr>\<rparr>))"

subsection \<open>The regression rule of CNLSG1\<close>

record CNLSG1 =
  cnls_y :: "real list"
  cnls_x :: "real list list"
  cnls_cet :: cet
  cnls_fun :: frontier_fun
  cnls_rts :: rts
  cnls_cutactive :: "gate list list"

definition CNLSG1_regression_rule ::
  "'a CNLSG1_scheme \<Rightarrow> error + ('b index_sets_scheme \<Rightarrow> nat \<Rightarrow> error + constr)" where
  "CNLSG1_regression_rule self =
     (if cnls_cet self = CET_ADDI then
        (if cnls_rts self = RTS_VRS1 then
           Inr (\<lambda>m i.
             bindE (index1 (cnls_y self) i) (\<lambda>yi.
             bindE (beta_x_sum (cnls_x self) (model_J m) i i) (\<lambda>bx.
             Inr (Rel EQ (Num yi) (Sub (Add (V (alpha i)) bx) (V (epsilon i)))))))
         else if cnls_rts self = RTS_CRS then
           Inr (\<lambda>m i.
             bindE (index1 (cnls_y self) i) (\<lambda>yi.
             bindE (beta_x_sum (cnls_x self) (model_J m) i i) (\<lambda>bx.
             Inr (Rel EQ (Num yi) (Sub bx (V (epsilon i)))))))
         else Inl (ValueError ''Undefined model parameters.''))
      else if cnls_cet self = CET_MULT then
        Inr (\<lambda>m i.
          bindE (index1 (cnls_y self) i) (\<lambda>yi.
          bindE (log_data yi) (\<lambda>ly.
          Inr (Rel EQ ly (Sub (Log (Add (V (frontier i)) (Num 1))) (V (epsilon i)))))))
      else Inl (ValueError ''Undefined model parameters.''))"

subsection \<open>The expressions of the specification\<close>

text \<open>
  The sums and the linear predictor as the specification writes them:
  \<open>\<Sum>\<^sub>j beta[c,j]\<cdot>x[i][j]\<close>, \<open>\<Sum>\<^sub>k lamda[k]\<cdot>z[i][k]\<close>, and the predictor of the
  coefficients of observation \<open>c\<close> at the inputs of observation \<open>i\<close>, with the
  intercept under variable returns to scale only.
\<close>

definition spec_beta_x :: "real list list \<Rightarrow> nat list \<Rightarrow> nat \<Rightarrow> nat \<Rightarrow> expr" where
  "spec_beta_x X J c i = pysum (map (\<lambda>j. Mul (V (beta c j)) (Num (X ! i ! j))) J)"

definition spec_lamda_z :: "real list list \<Rightarrow> nat list \<Rightarrow> nat \<Rightarrow> expr" where
  "spec_lamda_z Z K i = pysum (map (\<lambda>k. Mul (V (lamda k)) (Num (Z ! i ! k))) K)"

definition spec_predictor :: "rts \<Rightarrow> real list list \<Rightarrow> nat list \<Rightarrow> nat \<Rightarrow> nat \<Rightarrow> expr" where
  "spec_predictor r X J c i =
     (if r = RTS_VRS1 then Add (V (alpha c)) (spec_beta_x X J c i) else spec_beta_x X J c i)"

subsection \<open>Auxiliary definitions\<close>

text \<open>
  The index sets the constructors build once \<^verbatim>\<open>x[0]\<close> and \<^verbatim>\<open>z[0]\<close> exist.
\<close>

definition init_sets :: "'a CQRZG1_scheme \<Rightarrow> index_sets" where
  "init_sets self =
     \<lparr>model_I = [0..<length (self_y self)],
      model_J = [0..<length (self_x self ! 0)],
      model_K = [0..<length (the (self_z self) ! 0)]\<rparr>"

text \<open>
  The returns to scale whose predictor the phase-2 rule writes: the additive branch
  keeps the intercept under constant returns to scale as well.
\<close>

definition sweet_rule2_rts :: "cet \<Rightarrow> rts \<Rightarrow> rts" where
  "sweet_rule2_rts c r = (if c = CET_ADDI then RTS_VRS1 else r)"

text \<open>A small instance: two observations, one input, one contextual variable.\<close>

definition example1 :: CQRZG1 where
  "example1 =
     \<lparr>self_y = [1, 2], self_x = [[1], [2]], self_z = Some [[3], [4]], self_tau = 1 / 2,
      self_cet = CET_ADDI, self_fun = FUN_PROD, self_rts = RTS_VRS1,
      self_cutactive = [[GBool False, GBool True], [GNum 1, GNum 0]]\<rparr>"

text \<open>
  The gate of the specification: the entry of the pair is truthy and the pair is not
  on the diagonal.
\<close>

definition gate_open :: "gate list list \<Rightarrow> nat \<times> nat \<Rightarrow> bool" where
  "gate_open G ih = (truthy (G ! fst ih ! snd ih) \<and> fst ih \<noteq> snd ih)"

definition example2 :: CQRZG2 where
  "example2 =
     \<lparr>self_y = [1, 2], self_x = [[1], [2]], self_z = Some [[3], [4]], self_tau = 1 / 2,
      self_cet = CET_MULT, self_fun = FUN_COST, self_rts = RTS_CRS,
      self_cutactive = [[GBool True, GNum 0], [GNum 0, GBool True]],
      self_active = [[GNum 2, GBool False], [GBool True, GBool True]]\<rparr>"

definition example3 :: CQRZG1 where
  "example3 =
     \<lparr>self_y = [1, 2], self_x = [[1], [2]], self_z = Some [[3], [4]], self_tau = 1 / 4,
      self_cet = CET_MULT, self_fun = FUN_PROD, self_rts = RTS_VRS1,
      self_cutactive = [[GBool False, GBool False], [GBool False, GBool False]]\<rparr>"

definition example_cnls :: CNLSG1 where
  "example_cnls =
     \<lparr>cnls_y = [1, 2], cnls_x = [[1], [2]],
      cnls_cet = CET_MULT, cnls_fun = FUN_PROD, cnls_rts = RTS_CRS,
      cnls_cutactive = [[GBool False, GBool False], [GBool False, GBool False]]\<rparr>"

text \<open>Replacing the relation of a constraint, operands unchanged.\<close>

fun set_op :: "relop \<Rightarrow> constr \<Rightarrow> constr" where
  "set_op rel Skip = Skip"
| "set_op rel (Rel r a b) = Rel rel a b"

definition map_rule1 ::
  "(constr \<Rightarrow> constr) \<Rightarrow> error + ('m \<Rightarrow> nat \<Rightarrow> error + constr) \<Rightarrow> error + ('m \<Rightarrow> nat \<Rightarrow> error + constr)" where
  "map_rule1 f r = map_sum id (\<lambda>rule m i. map_sum id f (rule m i)) r"

definition map_rule2 ::
  "(constr \<Rightarrow> constr) \<Rightarrow> error + ('m \<Rightarrow> nat \<Rightarrow> nat \<Rightarrow> error + constr) \<Rightarrow> error + ('m \<Rightarrow> nat \<Rightarrow> nat \<Rightarrow> error + constr)" where
  "map_rule2 f r = map_sum id (\<lambda>rule m i h. map_sum id f (rule m i h)) r"

text \<open>The same replacement in the three concavity components of a model.\<close>

definition set_model_op :: "relop \<Rightarrow> model \<Rightarrow> model" where
  "set_model_op rel m =
     m\<lparr>model_afriat_rule := map (apsnd (set_op rel)) (model_afriat_rule m),
       model_sweet_rule := map (apsnd (set_op rel)) (model_sweet_rule m),
       model_sweet_rule2 := map_option (map (apsnd (set_op rel))) (model_sweet_rule2 m)\<rparr>"




text \<open>An expression without variables.\<close>

fun const_expr :: "expr \<Rightarrow> bool" where
  "const_expr (Num c) = True"
| "const_expr (V v) = False"
| "const_expr (Add a b) = (const_expr a \<and> const_expr b)"
| "const_expr (Sub a b) = (const_expr a \<and> const_expr b)"
| "const_expr (Mul a b) = (const_expr a \<and> const_expr b)"
| "const_expr (Pow a n) = const_expr a"
| "const_expr (Log a) = const_expr a"

text \<open>
  A linear expression: numbers and variables, sums and differences of linear
  expressions, products of a linear expression with an expression without variables;
  a power or a logarithm only of an expression without variables.
\<close>

fun linear_expr :: "expr \<Rightarrow> bool" where
  "linear_expr (Num c) = True"
| "linear_expr (V v) = True"
| "linear_expr (Add a b) = (linear_expr a \<and> linear_expr b)"
| "linear_expr (Sub a b) = (linear_expr a \<and> linear_expr b)"
| "linear_expr (Mul a b) = ((const_expr a \<and> linear_expr b) \<or> (linear_expr a \<and> const_expr b))"
| "linear_expr (Pow a n) = const_expr a"
| "linear_expr (Log a) = const_expr a"

text \<open>
  An additive instance under constant returns to scale whose two gating matrices are
  equal, and the index sets its constructor builds.
\<close>

definition example_addi_crs :: CQRZG2 where
  "example_addi_crs =
     \<lparr>self_y = [3, 4], self_x = [[1], [2]], self_z = Some [[5], [6]], self_tau = 1 / 2,
      self_cet = CET_ADDI, self_fun = FUN_PROD, self_rts = RTS_CRS,
      self_cutactive = [[GBool False, GBool True], [GBool True, GBool False]],
      self_active = [[GBool False, GBool True], [GBool True, GBool False]]\<rparr>"

definition example_sets :: index_sets where
  "example_sets = \<lparr>model_I = [0, 1], model_J = [0], model_K = [0]\<rparr>"

text \<open>An assignment: intercept 1 for observation 0, every other variable 0.\<close>

definition rho_alpha0 :: "var \<Rightarrow> real" where
  "rho_alpha0 v = (if v = alpha 0 then 1 else 0)"

text \<open>An assignment: \<open>beta[0,0] = 1\<close>, \<open>lamda[0] = 1\<close>, every other variable 0.\<close>

definition rho_beta_lamda :: "var \<Rightarrow> real" where
  "rho_beta_lamda v = (if v = beta 0 0 \<or> v = lamda 0 then 1 else 0)"

text \<open>An instance whose frontier type is neither of the two constants.\<close>

definition example_other_fun :: CQRZG1 where
  "example_other_fun =
     \<lparr>self_y = [3, 4], self_x = [[1], [2]], self_z = Some [[5], [6]], self_tau = 1 / 2,
      self_cet = CET_ADDI, self_fun = FUN_OTHER, self_rts = RTS_VRS1,
      self_cutactive = [[GBool False, GBool False], [GBool False, GBool False]]\<rparr>"

text \<open>The same with no observation.\<close>

definition example_other_fun_empty :: CQRZG1 where
  "example_other_fun_empty =
     \<lparr>self_y = [], self_x = [[1]], self_z = Some [[5]], self_tau = 1 / 2,
      self_cet = CET_ADDI, self_fun = FUN_OTHER, self_rts = RTS_VRS1,
      self_cutactive = []\<rparr>"

text \<open>An instance whose contextual matrix has two rows and no column.\<close>

definition example_no_columns :: CQRZG1 where
  "example_no_columns =
     \<lparr>self_y = [3, 4], self_x = [[1], [2]], self_z = Some [[], []], self_tau = 1 / 2,
      self_cet = CET_ADDI, self_fun = FUN_PROD, self_rts = RTS_VRS1,
      self_cutactive = [[GBool False, GBool True], [GBool True, GBool False]]\<rparr>"

text \<open>
  Input that respects the data model of the specification: supported parameters, at
  least one observation, rectangular matrices \<open>x\<close> and \<open>z\<close> with one row per
  observation, a square gating matrix, positive outputs when the logarithm of the
  output is taken, and at least one input (\<open>J \<ge> 1\<close>). Under constant returns to scale
  the sides of a concavity constraint have no intercept, so every row of \<open>x\<close> is
  required to hold a non-zero input: each side then mentions a variable.
\<close>

definition well_formed :: "'a CQRZG1_scheme \<Rightarrow> bool" where
  "well_formed self =
     ((self_cet self = CET_ADDI \<or> self_cet self = CET_MULT) \<and>
      (self_rts self = RTS_VRS1 \<or> self_rts self = RTS_CRS) \<and>
      (self_fun self = FUN_PROD \<or> self_fun self = FUN_COST) \<and>
      self_y self \<noteq> [] \<and>
      length (self_x self) = length (self_y self) \<and>
      list_all (\<lambda>row. length row = length (self_x self ! 0)) (self_x self) \<and>
      (case self_z self of
         None \<Rightarrow> False
       | Some zz \<Rightarrow> length zz = length (self_y self) \<and>
                   list_all (\<lambda>row. length row = length (zz ! 0)) zz) \<and>
      length (self_cutactive self) = length (self_y self) \<and>
      list_all (\<lambda>row. length row = length (self_y self)) (self_cutactive self) \<and>
      (if self_cet self = CET_MULT then list_all (\<lambda>v. 0 < v) (self_y self) else True) \<and>
      self_x self ! 0 \<noteq> [] \<and>
      (if self_rts self = RTS_CRS then list_all (list_ex (\<lambda>v. v \<noteq> 0)) (self_x self)
       else True))"

definition well_formed2 :: "'a CQRZG2_scheme \<Rightarrow> bool" where
  "well_formed2 self =
     (well_formed self \<and>
      length (self_active self) = length (self_y self) \<and>
      list_all (\<lambda>row. length row = length (self_y self)) (self_active self))"

text \<open>
  An additive instance under variable returns to scale with one open gate in each
  gating matrix.
\<close>

definition example_switch :: CQRZG2 where
  "example_switch =
     \<lparr>self_y = [3, 4], self_x = [[1], [2]], self_z = Some [[5], [6]], self_tau = 1 / 2,
      self_cet = CET_ADDI, self_fun = FUN_PROD, self_rts = RTS_VRS1,
      self_cutactive = [[GBool False, GBool True], [GBool False, GBool False]],
      self_active = [[GBool False, GBool False], [GNum 1, GBool False]]\<rparr>"

section \<open>Properties\<close>

subsection \<open>Errors, loops and sums\<close>

lemma bindE_Inl [simp]: "bindE (Inl e) f = Inl e"
  by (simp add: bindE_def)

lemma bindE_Inr [simp]: "bindE (Inr v) f = f v"
  by (simp add: bindE_def)

lemma bindE_eq_Inr: "bindE r f = Inr y \<longleftrightarrow> (\<exists>v. r = Inr v \<and> f v = Inr y)"
  by (cases r) simp_all

lemma collect_all_Inr:
  "(\<And>x. x \<in> set xs \<Longrightarrow> f x = Inr (g x)) \<Longrightarrow> collect (map f xs) = Inr (map g xs)"
  by (induction xs) simp_all

lemma collect_Inr_D:
  "collect (map f xs) = Inr vs \<Longrightarrow> (\<And>x v. x \<in> set xs \<Longrightarrow> f x = Inr v \<Longrightarrow> v = g x) \<Longrightarrow> vs = map g xs"
proof (induction xs arbitrary: vs)
  case Nil
  then show ?case by simp
next
  case (Cons a xs)
  then show ?case
    by (auto split: sum.splits)
qed

lemma takeWhile_neq_upt: "i < n \<Longrightarrow> takeWhile (\<lambda>e. e \<noteq> i) [0..<n] = [0..<i]"
proof (induction n)
  case 0
  then show ?case by simp
next
  case (Suc n)
  show ?case
  proof (cases "i = n")
    case True
    have "\<And>x. x \<in> set [0..<n] \<Longrightarrow> x \<noteq> n" by simp
    then have "takeWhile (\<lambda>e. e \<noteq> n) ([0..<n] @ [n]) = [0..<n] @ takeWhile (\<lambda>e. e \<noteq> n) [n]"
      by (rule takeWhile_append2)
    with True show ?thesis by simp
  next
    case False
    with Suc have "i < n" by simp
    with Suc.IH have "takeWhile (\<lambda>e. e \<noteq> i) [0..<n] = [0..<i]" by simp
    moreover have "\<exists>e\<in>set [0..<n]. \<not> e \<noteq> i" using \<open>i < n\<close> by simp
    ultimately show ?thesis by (simp add: takeWhile_append1)
  qed
qed

lemma nextw_upt: "i < n \<Longrightarrow> nextw [0..<n] i = Suc i mod n"
proof -
  assume a: "i < n"
  have "Suc i mod n < n" using a by simp
  then show ?thesis
    using a by (simp add: nextw_def takeWhile_neq_upt)
qed

lemma index2_Inr_D: "index2 X i j = Inr v \<Longrightarrow> v = X ! i ! j"
  by (auto simp: index2_def index1_def bindE_eq_Inr split: if_splits)

lemma beta_x_sum_Inr_D:
  assumes "beta_x_sum X J c i = Inr e"
  shows "e = spec_beta_x X J c i"
proof -
  from assms obtain vs where
    vs: "collect (map (\<lambda>j. bindE (index2 X i j) (\<lambda>v. Inr (Mul (V (beta c j)) (Num v)))) J) = Inr vs"
    and e: "e = pysum vs"
    by (auto simp: beta_x_sum_def pysum_gen_def bindE_eq_Inr)
  have "vs = map (\<lambda>j. Mul (V (beta c j)) (Num (X ! i ! j))) J"
    by (rule collect_Inr_D [OF vs]) (auto simp: bindE_eq_Inr dest: index2_Inr_D)
  with e show ?thesis by (simp add: spec_beta_x_def)
qed

lemma beta_x_sum_ok:
  assumes "i < length X" and "\<And>j. j \<in> set J \<Longrightarrow> j < length (X ! i)"
  shows "beta_x_sum X J c i = Inr (spec_beta_x X J c i)"
proof -
  have "collect (map (\<lambda>j. bindE (index2 X i j) (\<lambda>v. Inr (Mul (V (beta c j)) (Num v)))) J)
        = Inr (map (\<lambda>j. Mul (V (beta c j)) (Num (X ! i ! j))) J)"
    by (rule collect_all_Inr) (use assms in \<open>simp add: index2_def index1_def\<close>)
  then show ?thesis by (simp add: beta_x_sum_def pysum_gen_def spec_beta_x_def)
qed

lemma call_operator_Inr:
  "call_operator opr lhs rhs = Inr c \<longleftrightarrow>
     (\<exists>rel a b. opr = Some rel \<and> lhs = Inr a \<and> rhs = Inr b \<and> c = Rel rel a b)"
  by (auto simp: call_operator_def bindE_eq_Inr split: option.splits)

lemma alpha_plus_Inr:
  "alpha_plus k s = Inr e \<longleftrightarrow> (\<exists>bx. s = Inr bx \<and> e = Add (V (alpha k)) bx)"
  by (auto simp: alpha_plus_def bindE_eq_Inr)

lemma operator_of_Some:
  "operator_of f = Some rel \<longleftrightarrow> (f = FUN_PROD \<and> rel = LE) \<or> (f = FUN_COST \<and> rel = GE)"
  by (auto simp: operator_of_def)

lemma afriat_rule_Inr_D:
  assumes "afriat_rule self = Inr ar" and "ar m i = Inr c"
  shows "(self_fun self = FUN_PROD \<or> self_fun self = FUN_COST) \<and>
         c = Rel (if self_fun self = FUN_PROD then LE else GE)
               (spec_predictor (self_rts self) (self_x self) (model_J m) i i)
               (spec_predictor (self_rts self) (self_x self) (model_J m) (nextw (model_I m) i) i)"
  using assms
  by (auto simp: afriat_rule_def Let_def call_operator_Inr alpha_plus_Inr operator_of_Some
      sum_beta_x_def spec_predictor_def
      dest!: beta_x_sum_Inr_D split: if_splits)

lemma Constraint_Inr_map:
  assumes "Constraint idx rule = Inr cs"
    and "\<And>i c. i \<in> set idx \<Longrightarrow> rule i = Inr c \<Longrightarrow> c = f i \<and> f i \<noteq> Skip"
  shows "cs = map (\<lambda>i. (i, f i)) idx"
proof -
  from assms(1) obtain vs where
    vs: "collect (map (\<lambda>i. bindE (rule i) (\<lambda>c. Inr (i, c))) idx) = Inr vs"
    and cs: "cs = filter (\<lambda>ic. snd ic \<noteq> Skip) vs"
    by (auto simp: Constraint_def bindE_eq_Inr)
  have "vs = map (\<lambda>i. (i, f i)) idx"
    by (rule collect_Inr_D [OF vs]) (use assms(2) in \<open>auto simp: bindE_eq_Inr\<close>)
  moreover have "\<And>i. i \<in> set idx \<Longrightarrow> f i \<noteq> Skip"
  proof -
    fix i assume i: "i \<in> set idx"
    from vs i obtain v where "bindE (rule i) (\<lambda>c. Inr (i, c)) = Inr v"
      by (induction idx arbitrary: vs) (auto split: sum.splits)
    then obtain c where "rule i = Inr c" by (auto simp: bindE_eq_Inr)
    with assms(2) i show "f i \<noteq> Skip" by blast
  qed
  ultimately show ?thesis using cs by (simp add: filter_map o_def cong: filter_cong)
qed

subsection \<open>What a successful rule returns\<close>

lemma Constraint_Inr_filter:
  assumes "Constraint idx rule = Inr cs"
    and "\<And>i c. i \<in> set idx \<Longrightarrow> rule i = Inr c \<Longrightarrow> c = (if P i then f i else Skip) \<and> f i \<noteq> Skip"
  shows "cs = map (\<lambda>i. (i, f i)) (filter P idx)"
proof -
  from assms(1) obtain vs where
    vs: "collect (map (\<lambda>i. bindE (rule i) (\<lambda>c. Inr (i, c))) idx) = Inr vs"
    and cs: "cs = filter (\<lambda>ic. snd ic \<noteq> Skip) vs"
    by (auto simp: Constraint_def bindE_eq_Inr)
  have v: "vs = map (\<lambda>i. (i, if P i then f i else Skip)) idx"
  proof (rule collect_Inr_D [OF vs])
    fix i v assume i: "i \<in> set idx" and "bindE (rule i) (\<lambda>c. Inr (i, c)) = Inr v"
    then obtain c where c: "rule i = Inr c" "v = (i, c)" by (auto simp: bindE_eq_Inr)
    from assms(2) [OF i c(1)] c(2) show "v = (i, if P i then f i else Skip)" by simp
  qed
  have ne: "\<And>i. i \<in> set idx \<Longrightarrow> f i \<noteq> Skip"
  proof -
    fix i assume i: "i \<in> set idx"
    from vs i obtain v where "bindE (rule i) (\<lambda>c. Inr (i, c)) = Inr v"
      by (induction idx arbitrary: vs) (auto split: sum.splits)
    then obtain c where "rule i = Inr c" by (auto simp: bindE_eq_Inr)
    with assms(2) i show "f i \<noteq> Skip" by blast
  qed
  have "filter (\<lambda>ic. snd ic \<noteq> Skip) (map (\<lambda>i. (i, if P i then f i else Skip)) idx)
        = map (\<lambda>i. (i, f i)) (filter P idx)"
    using ne by (induction idx) auto
  with cs v show ?thesis by simp
qed

lemma zindex2_Inr_D: "zindex2 z i k = Inr v \<Longrightarrow> v = the z ! i ! k"
  by (auto simp: zindex2_def zindex1_def index1_def bindE_eq_Inr split: if_splits option.splits)

lemma sum_lamda_z_Inr_D:
  assumes "sum_lamda_z self m i = Inr e"
  shows "e = spec_lamda_z (the (self_z self)) (model_K m) i"
proof -
  from assms obtain vs where
    vs: "collect (map (\<lambda>k. bindE (zindex2 (self_z self) i k) (\<lambda>v. Inr (Mul (V (lamda k)) (Num v))))
           (model_K m)) = Inr vs"
    and e: "e = pysum vs"
    by (auto simp: sum_lamda_z_def pysum_gen_def bindE_eq_Inr)
  have "vs = map (\<lambda>k. Mul (V (lamda k)) (Num (the (self_z self) ! i ! k))) (model_K m)"
    by (rule collect_Inr_D [OF vs]) (auto simp: bindE_eq_Inr dest: zindex2_Inr_D)
  with e show ?thesis by (simp add: spec_lamda_z_def)
qed

lemma index1_Inr: "index1 xs i = Inr v \<longleftrightarrow> i < length xs \<and> v = xs ! i"
  by (auto simp: index1_def)

lemma log_data_Inr: "log_data v = Inr e \<longleftrightarrow> 0 < v \<and> e = Log (Num v)"
  by (auto simp: log_data_def)

lemma regression_rule_mult_Inr_D:
  assumes "regression_rule self = Inr rr" and "rr m i = Inr c" and "self_cet self = CET_MULT"
  shows "c = Rel EQ (Log (Num (self_y self ! i)))
               (Add (Sub (Sub (Log (Add (V (frontier i)) (Num 1)))
                              (spec_lamda_z (the (self_z self)) (model_K m) i))
                         (V (epsilon_minus i)))
                    (V (epsilon_plus i)))"
  using assms
  by (auto simp: regression_rule_def bindE_eq_Inr index1_Inr log_data_Inr
      dest!: sum_lamda_z_Inr_D)

lemma log_rule_Inr_D:
  assumes "log_rule self = Inr lr" and "lr m i = Inr c"
  shows "self_cet self = CET_MULT \<and> (self_rts self = RTS_VRS1 \<or> self_rts self = RTS_CRS) \<and>
         c = Rel EQ (V (frontier i))
               (Sub (spec_predictor (self_rts self) (self_x self) (model_J m) i i) (Num 1))"
  using assms
  by (auto simp: log_rule_def bindE_eq_Inr sum_beta_x_def spec_predictor_def
      dest!: beta_x_sum_Inr_D split: if_splits)

lemma log_rule_Inr_rts:
  "log_rule self = Inr lr \<Longrightarrow> self_rts self = RTS_VRS1 \<or> self_rts self = RTS_CRS"
  by (auto simp: log_rule_def split: if_splits)

lemma sweet_rule_Inr_D:
  assumes "sweet_rule self = Inr sr" and "sr m i h = Inr c"
  shows "c = (if truthy (self_cutactive self ! i ! h) \<and> i \<noteq> h
              then Rel (if self_fun self = FUN_PROD then LE else GE)
                     (spec_predictor (self_rts self) (self_x self) (model_J m) i i)
                     (spec_predictor (self_rts self) (self_x self) (model_J m) h i)
              else Skip)"
  using assms
  by (auto simp: sweet_rule_def Let_def bindE_eq_Inr call_operator_Inr alpha_plus_Inr
      operator_of_Some sum_beta_x_def spec_predictor_def
      dest!: beta_x_sum_Inr_D index2_Inr_D split: if_splits)

lemma sweet_rule2_Inr_D:
  assumes "sweet_rule2 self = Inr sr" and "sr m i h = Inr c"
  shows "c = (if truthy (self_active self ! i ! h) \<and> i \<noteq> h
              then Rel (if self_fun self = FUN_PROD then LE else GE)
                     (spec_predictor (sweet_rule2_rts (self_cet self) (self_rts self))
                        (self_x self) (model_J m) i i)
                     (spec_predictor (sweet_rule2_rts (self_cet self) (self_rts self))
                        (self_x self) (model_J m) h i)
              else Skip)"
  using assms
  by (auto simp: sweet_rule2_def Let_def bindE_eq_Inr call_operator_Inr alpha_plus_Inr
      operator_of_Some sum_beta_x_def spec_predictor_def sweet_rule2_rts_def
      dest!: beta_x_sum_Inr_D index2_Inr_D split: if_splits)

subsection \<open>What a successful constructor returns\<close>

lemma CQRZG1_init_Inr_D:
  assumes "CQRZG1_init self = Inr mdl"
  shows "\<exists>rr reg lg ar afr sr sw.
      self_x self \<noteq> [] \<and> (\<exists>zz. self_z self = Some zz \<and> zz \<noteq> []) \<and>
      regression_rule self = Inr rr \<and>
      Constraint [0..<length (self_y self)] (rr (init_sets self)) = Inr reg \<and>
      (if self_cet self = CET_MULT then
         \<exists>lr lgs. log_rule self = Inr lr \<and>
           Constraint [0..<length (self_y self)] (lr (init_sets self)) = Inr lgs \<and> lg = Some lgs
       else lg = None) \<and>
      afriat_rule self = Inr ar \<and>
      Constraint [0..<length (self_y self)] (ar (init_sets self)) = Inr afr \<and>
      sweet_rule self = Inr sr \<and>
      Constraint (List.product [0..<length (self_y self)] [0..<length (self_y self)])
        (\<lambda>ih. sr (init_sets self) (fst ih) (snd ih)) = Inr sw \<and>
      mdl = \<lparr>model_I = [0..<length (self_y self)],
             model_J = [0..<length (self_x self ! 0)],
             model_K = [0..<length (the (self_z self) ! 0)],
             model_vars = declare_vars [0..<length (self_y self)] [0..<length (self_x self ! 0)]
                            [0..<length (the (self_z self) ! 0)],
             model_objective = \<lparr>obj_expr = objective_rule self (init_sets self), obj_active = True\<rparr>,
             model_regression_rule = reg,
             model_log_rule = lg,
             model_afriat_rule = afr,
             model_sweet_rule = sw,
             model_sweet_rule2 = None,
             model_squared_objective = None\<rparr>"
proof -
  from assms obtain x0 z0 where x0: "index1 (self_x self) 0 = Inr x0"
    and z0: "zindex1 (self_z self) 0 = Inr z0"
    by (auto simp: CQRZG1_init_def bindE_eq_Inr)
  from x0 have x: "self_x self \<noteq> []" "x0 = self_x self ! 0"
    by (auto simp: index1_def split: if_splits)
  from z0 obtain zz where z: "self_z self = Some zz" "zz \<noteq> []" "z0 = zz ! 0"
    by (auto simp: zindex1_def index1_def split: option.splits if_splits)
  have s: "\<lparr>model_I = [0..<length (self_y self)], model_J = [0..<length x0],
            model_K = [0..<length z0]\<rparr> = init_sets self"
    using x z by (simp add: init_sets_def)
  from assms show ?thesis
    unfolding CQRZG1_init_def x0 z0 bindE_Inr Let_def s
    using x z
    by (cases "self_cet self = CET_MULT") (auto simp: bindE_eq_Inr init_sets_def)
qed

lemma collect_Inr_all:
  "collect (map f xs) = Inr vs \<Longrightarrow> x \<in> set xs \<Longrightarrow> \<exists>v. f x = Inr v"
  by (induction xs arbitrary: vs) (auto split: sum.splits)

lemma init_sets_simps [simp]:
  "model_I (init_sets self) = [0..<length (self_y self)]"
  "model_J (init_sets self) = [0..<length (self_x self ! 0)]"
  "model_K (init_sets self) = [0..<length (the (self_z self) ! 0)]"
  by (simp_all add: init_sets_def)

lemma CQRZG1_init_afriat:
  assumes "CQRZG1_init self = Inr mdl"
  shows "model_afriat_rule mdl =
           map (\<lambda>i. (i, Rel (if self_fun self = FUN_PROD then LE else GE)
                  (spec_predictor (self_rts self) (self_x self) (model_J mdl) i i)
                  (spec_predictor (self_rts self) (self_x self) (model_J mdl)
                     (Suc i mod length (self_y self)) i)))
             [0..<length (self_y self)]"
proof -
  from CQRZG1_init_Inr_D [OF assms] obtain ar afr where
    ar: "afriat_rule self = Inr ar"
    and afr: "Constraint [0..<length (self_y self)] (ar (init_sets self)) = Inr afr"
    and m: "model_afriat_rule mdl = afr" "model_J mdl = [0..<length (self_x self ! 0)]"
    by auto
  have "afr = map (\<lambda>i. (i, Rel (if self_fun self = FUN_PROD then LE else GE)
                  (spec_predictor (self_rts self) (self_x self) (model_J mdl) i i)
                  (spec_predictor (self_rts self) (self_x self) (model_J mdl)
                     (Suc i mod length (self_y self)) i)))
             [0..<length (self_y self)]"
  proof (rule Constraint_Inr_map [OF afr])
    fix i c
    assume i: "i \<in> set [0..<length (self_y self)]" and c: "ar (init_sets self) i = Inr c"
    from i have "nextw [0..<length (self_y self)] i = Suc i mod length (self_y self)"
      by (simp add: nextw_upt)
    with afriat_rule_Inr_D [OF ar c] m(2)
    show "c = Rel (if self_fun self = FUN_PROD then LE else GE)
                  (spec_predictor (self_rts self) (self_x self) (model_J mdl) i i)
                  (spec_predictor (self_rts self) (self_x self) (model_J mdl)
                     (Suc i mod length (self_y self)) i) \<and>
          Rel (if self_fun self = FUN_PROD then LE else GE)
                  (spec_predictor (self_rts self) (self_x self) (model_J mdl) i i)
                  (spec_predictor (self_rts self) (self_x self) (model_J mdl)
                     (Suc i mod length (self_y self)) i) \<noteq> Skip"
      by simp
  qed
  with m(1) show ?thesis by simp
qed

lemma CQRZG1_init_fun:
  assumes "CQRZG1_init self = Inr mdl" and "self_y self \<noteq> []"
  shows "self_fun self = FUN_PROD \<or> self_fun self = FUN_COST"
proof -
  from CQRZG1_init_Inr_D [OF assms(1)] obtain ar afr where
    ar: "afriat_rule self = Inr ar"
    and afr: "Constraint [0..<length (self_y self)] (ar (init_sets self)) = Inr afr"
    by auto
  from afr obtain vs where
    vs: "collect (map (\<lambda>i. bindE (ar (init_sets self) i) (\<lambda>c. Inr (i, c))) [0..<length (self_y self)]) = Inr vs"
    by (auto simp: Constraint_def bindE_eq_Inr)
  have "0 \<in> set [0..<length (self_y self)]" using assms(2) by simp
  from collect_Inr_all [OF vs this] obtain c where "ar (init_sets self) 0 = Inr c"
    by (auto simp: bindE_eq_Inr)
  from afriat_rule_Inr_D [OF ar this] show ?thesis by simp
qed

lemma regression_rule_Inr_config:
  "regression_rule self = Inr rr \<Longrightarrow>
     self_cet self = CET_MULT \<or>
     (self_cet self = CET_ADDI \<and> (self_rts self = RTS_VRS1 \<or> self_rts self = RTS_CRS))"
  by (auto simp: regression_rule_def split: if_splits)

lemma CQRZG1_init_config:
  assumes "CQRZG1_init self = Inr mdl"
  shows "(self_cet self = CET_ADDI \<or> self_cet self = CET_MULT) \<and>
         (self_rts self = RTS_VRS1 \<or> self_rts self = RTS_CRS)"
  using CQRZG1_init_Inr_D [OF assms]
  by (auto dest: regression_rule_Inr_config log_rule_Inr_rts split: if_splits)

lemmas rule_defs = regression_rule_def log_rule_def afriat_rule_def sweet_rule_def sweet_rule2_def

lemmas run_defs = Constraint_def sum_beta_x_def beta_x_sum_def sum_lamda_z_def pysum_gen_def
  pysum_def index1_def index2_def zindex1_def zindex2_def call_operator_def alpha_plus_def
  operator_of_def nextw_def declare_vars_def objective_rule_def log_data_def Let_def upt_rec

lemmas spec_defs = spec_predictor_def spec_beta_x_def spec_lamda_z_def pysum_def upt_rec

lemma CQRZG2_init_eq:
  "CQRZG2_init self =
     bindE (CQRZG1_init self) (\<lambda>m.
     bindE (sweet_rule2 self) (\<lambda>sr2.
     bindE (Constraint (List.product (model_I m) (model_I m))
              (\<lambda>ih. sr2 (index_sets.truncate m) (fst ih) (snd ih))) (\<lambda>sw2.
     Inr (m\<lparr>model_sweet_rule2 := Some sw2\<rparr>))))"
  by (simp add: CQRZG2_init_def CQRZG1_init_def bindE_def Let_def index_sets.truncate_def
      split: sum.splits)

lemma CQRZG2_init_Inr_D:
  assumes "CQRZG2_init self = Inr mdl"
  shows "\<exists>m sr2 sw2. CQRZG1_init self = Inr m \<and> sweet_rule2 self = Inr sr2 \<and>
           Constraint (List.product [0..<length (self_y self)] [0..<length (self_y self)])
              (\<lambda>ih. sr2 (init_sets self) (fst ih) (snd ih)) = Inr sw2 \<and>
           mdl = m\<lparr>model_sweet_rule2 := Some sw2\<rparr>"
proof -
  from assms obtain m sr2 sw2 where m: "CQRZG1_init self = Inr m"
    and sr2: "sweet_rule2 self = Inr sr2"
    and sw2: "Constraint (List.product (model_I m) (model_I m))
              (\<lambda>ih. sr2 (index_sets.truncate m) (fst ih) (snd ih)) = Inr sw2"
    and mdl: "mdl = m\<lparr>model_sweet_rule2 := Some sw2\<rparr>"
    by (auto simp: CQRZG2_init_eq bindE_eq_Inr)
  from CQRZG1_init_Inr_D [OF m] have "model_I m = [0..<length (self_y self)]"
    and "index_sets.truncate m = init_sets self"
    by (auto simp: index_sets.truncate_def init_sets_def)
  with m sr2 sw2 mdl show ?thesis by auto
qed

lemma CQRZG1_init_sweet:
  assumes "CQRZG1_init self = Inr mdl"
  shows "model_sweet_rule mdl =
           map (\<lambda>ih. (ih, Rel (if self_fun self = FUN_PROD then LE else GE)
                  (spec_predictor (self_rts self) (self_x self) (model_J mdl) (fst ih) (fst ih))
                  (spec_predictor (self_rts self) (self_x self) (model_J mdl) (snd ih) (fst ih))))
             (filter (\<lambda>ih. truthy (self_cutactive self ! fst ih ! snd ih) \<and> fst ih \<noteq> snd ih)
                (List.product [0..<length (self_y self)] [0..<length (self_y self)]))"
proof -
  from CQRZG1_init_Inr_D [OF assms] obtain sr sw where
    sr: "sweet_rule self = Inr sr"
    and sw: "Constraint (List.product [0..<length (self_y self)] [0..<length (self_y self)])
               (\<lambda>ih. sr (init_sets self) (fst ih) (snd ih)) = Inr sw"
    and m: "model_sweet_rule mdl = sw" "model_J mdl = [0..<length (self_x self ! 0)]"
    by auto
  have "sw = map (\<lambda>ih. (ih, Rel (if self_fun self = FUN_PROD then LE else GE)
                  (spec_predictor (self_rts self) (self_x self) (model_J mdl) (fst ih) (fst ih))
                  (spec_predictor (self_rts self) (self_x self) (model_J mdl) (snd ih) (fst ih))))
             (filter (\<lambda>ih. truthy (self_cutactive self ! fst ih ! snd ih) \<and> fst ih \<noteq> snd ih)
                (List.product [0..<length (self_y self)] [0..<length (self_y self)]))"
  proof (rule Constraint_Inr_filter [OF sw])
    fix ih c
    assume "sr (init_sets self) (fst ih) (snd ih) = Inr c"
    from sweet_rule_Inr_D [OF sr this] m(2)
    show "c = (if truthy (self_cutactive self ! fst ih ! snd ih) \<and> fst ih \<noteq> snd ih
               then Rel (if self_fun self = FUN_PROD then LE else GE)
                  (spec_predictor (self_rts self) (self_x self) (model_J mdl) (fst ih) (fst ih))
                  (spec_predictor (self_rts self) (self_x self) (model_J mdl) (snd ih) (fst ih))
               else Skip) \<and>
          Rel (if self_fun self = FUN_PROD then LE else GE)
                  (spec_predictor (self_rts self) (self_x self) (model_J mdl) (fst ih) (fst ih))
                  (spec_predictor (self_rts self) (self_x self) (model_J mdl) (snd ih) (fst ih))
            \<noteq> Skip"
      by simp
  qed
  with m(1) show ?thesis by simp
qed

lemma CQRZG2_init_sweet2:
  assumes "CQRZG2_init self = Inr mdl"
  shows "model_sweet_rule2 mdl = Some
          (map (\<lambda>ih. (ih, Rel (if self_fun self = FUN_PROD then LE else GE)
                  (spec_predictor (sweet_rule2_rts (self_cet self) (self_rts self))
                     (self_x self) (model_J mdl) (fst ih) (fst ih))
                  (spec_predictor (sweet_rule2_rts (self_cet self) (self_rts self))
                     (self_x self) (model_J mdl) (snd ih) (fst ih))))
             (filter (\<lambda>ih. truthy (self_active self ! fst ih ! snd ih) \<and> fst ih \<noteq> snd ih)
                (List.product [0..<length (self_y self)] [0..<length (self_y self)])))"
proof -
  from CQRZG2_init_Inr_D [OF assms] obtain m sr2 sw2 where
    m: "CQRZG1_init self = Inr m"
    and sr: "sweet_rule2 self = Inr sr2"
    and sw: "Constraint (List.product [0..<length (self_y self)] [0..<length (self_y self)])
               (\<lambda>ih. sr2 (init_sets self) (fst ih) (snd ih)) = Inr sw2"
    and mdl: "mdl = m\<lparr>model_sweet_rule2 := Some sw2\<rparr>"
    by auto
  from CQRZG1_init_Inr_D [OF m] mdl have J: "model_J mdl = [0..<length (self_x self ! 0)]"
    by auto
  from mdl have s2: "model_sweet_rule2 mdl = Some sw2" by simp
  have "sw2 = map (\<lambda>ih. (ih, Rel (if self_fun self = FUN_PROD then LE else GE)
                  (spec_predictor (sweet_rule2_rts (self_cet self) (self_rts self))
                     (self_x self) (model_J mdl) (fst ih) (fst ih))
                  (spec_predictor (sweet_rule2_rts (self_cet self) (self_rts self))
                     (self_x self) (model_J mdl) (snd ih) (fst ih))))
             (filter (\<lambda>ih. truthy (self_active self ! fst ih ! snd ih) \<and> fst ih \<noteq> snd ih)
                (List.product [0..<length (self_y self)] [0..<length (self_y self)]))"
  proof (rule Constraint_Inr_filter [OF sw])
    fix ih c
    assume "sr2 (init_sets self) (fst ih) (snd ih) = Inr c"
    from sweet_rule2_Inr_D [OF sr this] J
    show "c = (if truthy (self_active self ! fst ih ! snd ih) \<and> fst ih \<noteq> snd ih
               then Rel (if self_fun self = FUN_PROD then LE else GE)
                  (spec_predictor (sweet_rule2_rts (self_cet self) (self_rts self))
                     (self_x self) (model_J mdl) (fst ih) (fst ih))
                  (spec_predictor (sweet_rule2_rts (self_cet self) (self_rts self))
                     (self_x self) (model_J mdl) (snd ih) (fst ih))
               else Skip) \<and>
          Rel (if self_fun self = FUN_PROD then LE else GE)
                  (spec_predictor (sweet_rule2_rts (self_cet self) (self_rts self))
                     (self_x self) (model_J mdl) (fst ih) (fst ih))
                  (spec_predictor (sweet_rule2_rts (self_cet self) (self_rts self))
                     (self_x self) (model_J mdl) (snd ih) (fst ih))
            \<noteq> Skip"
      by simp
  qed
  with s2 show ?thesis by (simp only:)
qed

lemma CQRZG2_init_sweet:
  assumes "CQRZG2_init self = Inr mdl"
  shows "\<exists>m. CQRZG1_init self = Inr m \<and> model_sweet_rule mdl = model_sweet_rule m"
  using CQRZG2_init_Inr_D [OF assms] by auto

lemma CQRZG1_init_log:
  assumes "CQRZG1_init self = Inr mdl" and "self_cet self = CET_MULT"
  shows "model_log_rule mdl = Some
           (map (\<lambda>i. (i, Rel EQ (V (frontier i))
                  (Sub (spec_predictor (self_rts self) (self_x self) (model_J mdl) i i) (Num 1))))
             [0..<length (self_y self)])"
proof -
  from CQRZG1_init_Inr_D [OF assms(1)] assms(2) obtain lr lgs where
    lr: "log_rule self = Inr lr"
    and lgs: "Constraint [0..<length (self_y self)] (lr (init_sets self)) = Inr lgs"
    and m: "model_log_rule mdl = Some lgs" "model_J mdl = [0..<length (self_x self ! 0)]"
    by auto
  have "lgs = map (\<lambda>i. (i, Rel EQ (V (frontier i))
                  (Sub (spec_predictor (self_rts self) (self_x self) (model_J mdl) i i) (Num 1))))
             [0..<length (self_y self)]"
  proof (rule Constraint_Inr_map [OF lgs])
    fix i c
    assume "lr (init_sets self) i = Inr c"
    from log_rule_Inr_D [OF lr this] m(2)
    show "c = Rel EQ (V (frontier i))
                  (Sub (spec_predictor (self_rts self) (self_x self) (model_J mdl) i i) (Num 1)) \<and>
          Rel EQ (V (frontier i))
                  (Sub (spec_predictor (self_rts self) (self_x self) (model_J mdl) i i) (Num 1))
            \<noteq> Skip"
      by simp
  qed
  with m(1) show ?thesis by (simp only:)
qed

lemma CQRZG1_init_regression_mult:
  assumes "CQRZG1_init self = Inr mdl" and "self_cet self = CET_MULT"
  shows "model_regression_rule mdl =
           map (\<lambda>i. (i, Rel EQ (Log (Num (self_y self ! i)))
                  (Add (Sub (Sub (Log (Add (V (frontier i)) (Num 1)))
                                 (spec_lamda_z (the (self_z self)) (model_K mdl) i))
                            (V (epsilon_minus i)))
                       (V (epsilon_plus i)))))
             [0..<length (self_y self)]"
proof -
  from CQRZG1_init_Inr_D [OF assms(1)] obtain rr reg where
    rr: "regression_rule self = Inr rr"
    and reg: "Constraint [0..<length (self_y self)] (rr (init_sets self)) = Inr reg"
    and m: "model_regression_rule mdl = reg" "model_K mdl = [0..<length (the (self_z self) ! 0)]"
    by auto
  have "reg = map (\<lambda>i. (i, Rel EQ (Log (Num (self_y self ! i)))
                  (Add (Sub (Sub (Log (Add (V (frontier i)) (Num 1)))
                                 (spec_lamda_z (the (self_z self)) (model_K mdl) i))
                            (V (epsilon_minus i)))
                       (V (epsilon_plus i)))))
             [0..<length (self_y self)]"
  proof (rule Constraint_Inr_map [OF reg])
    fix i c
    assume "rr (init_sets self) i = Inr c"
    from regression_rule_mult_Inr_D [OF rr this assms(2)] m(2)
    show "c = Rel EQ (Log (Num (self_y self ! i)))
                  (Add (Sub (Sub (Log (Add (V (frontier i)) (Num 1)))
                                 (spec_lamda_z (the (self_z self)) (model_K mdl) i))
                            (V (epsilon_minus i)))
                       (V (epsilon_plus i))) \<and>
          Rel EQ (Log (Num (self_y self ! i)))
                  (Add (Sub (Sub (Log (Add (V (frontier i)) (Num 1)))
                                 (spec_lamda_z (the (self_z self)) (model_K mdl) i))
                            (V (epsilon_minus i)))
                       (V (epsilon_plus i))) \<noteq> Skip"
      by simp
  qed
  with m(1) show ?thesis by (simp only:)
qed

lemma CQRZG1_init_log_none:
  assumes "CQRZG1_init self = Inr mdl" and "self_cet self \<noteq> CET_MULT"
  shows "model_log_rule mdl = None"
  using CQRZG1_init_Inr_D [OF assms(1)] assms(2) by auto

lemma CNLSG1_regression_rule_mult:
  assumes "cnls_cet cself = CET_MULT" and "i < length (cnls_y cself)" and "0 < cnls_y cself ! i"
  shows "bindE (CNLSG1_regression_rule cself) (\<lambda>r. r m i) =
           Inr (Rel EQ (Log (Num (cnls_y cself ! i)))
                  (Sub (Log (Add (V (frontier i)) (Num 1))) (V (epsilon i))))"
  using assms by (simp add: CNLSG1_regression_rule_def index1_def log_data_def)

lemma map_sum_bindE:
  "map_sum id f (bindE r g) = bindE r (\<lambda>v. map_sum id f (g v))"
  by (cases r) simp_all

lemma call_operator_set_op:
  "map_sum id (set_op rel) (call_operator (Some r) lhs rhs) = call_operator (Some rel) lhs rhs"
  by (cases lhs; cases rhs) (simp_all add: call_operator_def)

lemma afriat_rule_switch:
  "afriat_rule (self\<lparr>self_fun := FUN_COST\<rparr>) = map_rule1 (set_op GE) (afriat_rule (self\<lparr>self_fun := FUN_PROD\<rparr>))"
  "afriat_rule (self\<lparr>self_fun := FUN_PROD\<rparr>) = map_rule1 (set_op LE) (afriat_rule (self\<lparr>self_fun := FUN_COST\<rparr>))"
  by (cases "self_cet self"; cases "self_rts self";
      simp add: afriat_rule_def map_rule1_def operator_of_def call_operator_set_op
        sum_beta_x_def Let_def)+

lemma gated_set_op:
  "map_sum id (set_op rel)
     (bindE g (\<lambda>v. if truthy v then (if (i::nat) = h then Inr Skip else call_operator (Some r) lhs rhs)
                    else Inr Skip))
   = bindE g (\<lambda>v. if truthy v then (if i = h then Inr Skip else call_operator (Some rel) lhs rhs)
                    else Inr Skip)"
  by (cases g) (simp_all add: call_operator_set_op)

lemma sweet_rule_switch:
  "sweet_rule (self\<lparr>self_fun := FUN_COST\<rparr>) = map_rule2 (set_op GE) (sweet_rule (self\<lparr>self_fun := FUN_PROD\<rparr>))"
  "sweet_rule (self\<lparr>self_fun := FUN_PROD\<rparr>) = map_rule2 (set_op LE) (sweet_rule (self\<lparr>self_fun := FUN_COST\<rparr>))"
  by (cases "self_cet self"; cases "self_rts self";
      simp add: sweet_rule_def map_rule2_def operator_of_def gated_set_op sum_beta_x_def Let_def
        cong: if_cong)+

lemma sweet_rule2_switch:
  "sweet_rule2 (self\<lparr>self_fun := FUN_COST\<rparr>) = map_rule2 (set_op GE) (sweet_rule2 (self\<lparr>self_fun := FUN_PROD\<rparr>))"
  "sweet_rule2 (self\<lparr>self_fun := FUN_PROD\<rparr>) = map_rule2 (set_op LE) (sweet_rule2 (self\<lparr>self_fun := FUN_COST\<rparr>))"
  by (cases "self_cet self"; cases "self_rts self";
      simp add: sweet_rule2_def map_rule2_def operator_of_def gated_set_op sum_beta_x_def Let_def
        cong: if_cong)+

lemma other_rules_switch:
  "regression_rule (self\<lparr>self_fun := f\<rparr>) = regression_rule self"
  "log_rule (self\<lparr>self_fun := f\<rparr>) = log_rule self"
  "objective_rule (self\<lparr>self_fun := f\<rparr>) = objective_rule self"
  "squared_objective_rule (self\<lparr>self_fun := f\<rparr>) = squared_objective_rule self"
  by (cases "self_cet self"; cases "self_rts self";
      simp add: regression_rule_def log_rule_def objective_rule_def squared_objective_rule_def
        sum_beta_x_def sum_lamda_z_def fun_eq_iff)+

lemma bindE_map_sum: "bindE (map_sum id F r) k = bindE r (\<lambda>v. k (F v))"
  by (cases r) simp_all

lemma set_op_Skip [simp]: "set_op rel c = Skip \<longleftrightarrow> c = Skip"
  by (cases c) simp_all

lemma collect_map_sum:
  "collect (map (\<lambda>i. map_sum id F (f i)) idx) = map_sum id (map F) (collect (map f idx))"
proof (induction idx)
  case Nil
  then show ?case by simp
next
  case (Cons a idx)
  then show ?case by (cases "f a"; cases "collect (map f idx)") simp_all
qed

lemma Constraint_set_op:
  "Constraint idx (\<lambda>i. map_sum id (set_op rel) (rule i)) =
     map_sum id (map (apsnd (set_op rel))) (Constraint idx rule)"
proof -
  have "(\<lambda>i. bindE (map_sum id (set_op rel) (rule i)) (\<lambda>c. Inr (i, c)))
        = (\<lambda>i. map_sum id (apsnd (set_op rel)) (bindE (rule i) (\<lambda>c. Inr (i, c))))"
    by (simp add: fun_eq_iff bindE_map_sum map_sum_bindE)
  then have "collect (map (\<lambda>i. bindE (map_sum id (set_op rel) (rule i)) (\<lambda>c. Inr (i, c))) idx)
        = map_sum id (map (apsnd (set_op rel)))
            (collect (map (\<lambda>i. bindE (rule i) (\<lambda>c. Inr (i, c))) idx))"
    by (simp add: collect_map_sum)
  moreover have "filter (\<lambda>ic. snd ic \<noteq> Skip) (map (apsnd (set_op rel)) cs)
        = map (apsnd (set_op rel)) (filter (\<lambda>ic. snd ic \<noteq> Skip) cs)" for cs :: "('a \<times> constr) list"
    by (induction cs) auto
  ultimately show ?thesis
    by (simp add: Constraint_def bindE_map_sum map_sum_bindE)
qed

lemma CQRZG1_init_switch_cost:
  "CQRZG1_init (self\<lparr>self_fun := FUN_COST\<rparr>) =
     map_sum id (set_model_op GE) (CQRZG1_init (self\<lparr>self_fun := FUN_PROD\<rparr>))"
  by (simp add: CQRZG1_init_def Let_def other_rules_switch afriat_rule_switch(1)
      sweet_rule_switch(1) map_rule1_def map_rule2_def bindE_map_sum map_sum_bindE
      Constraint_set_op set_model_op_def cong: if_cong)

lemma CQRZG1_init_switch_prod:
  "CQRZG1_init (self\<lparr>self_fun := FUN_PROD\<rparr>) =
     map_sum id (set_model_op LE) (CQRZG1_init (self\<lparr>self_fun := FUN_COST\<rparr>))"
  by (simp add: CQRZG1_init_def Let_def other_rules_switch afriat_rule_switch(2)
      sweet_rule_switch(2) map_rule1_def map_rule2_def bindE_map_sum map_sum_bindE
      Constraint_set_op set_model_op_def cong: if_cong)

lemma CQRZG2_init_switch_cost:
  "CQRZG2_init (self\<lparr>self_fun := FUN_COST\<rparr>) =
     map_sum id (set_model_op GE) (CQRZG2_init (self\<lparr>self_fun := FUN_PROD\<rparr>))"
  by (simp add: CQRZG2_init_def Let_def other_rules_switch afriat_rule_switch(1)
      sweet_rule_switch(1) sweet_rule2_switch(1) map_rule1_def map_rule2_def bindE_map_sum
      map_sum_bindE Constraint_set_op set_model_op_def cong: if_cong)

lemma CQRZG2_init_switch_prod:
  "CQRZG2_init (self\<lparr>self_fun := FUN_PROD\<rparr>) =
     map_sum id (set_model_op LE) (CQRZG2_init (self\<lparr>self_fun := FUN_COST\<rparr>))"
  by (simp add: CQRZG2_init_def Let_def other_rules_switch afriat_rule_switch(2)
      sweet_rule_switch(2) sweet_rule2_switch(2) map_rule1_def map_rule2_def bindE_map_sum
      map_sum_bindE Constraint_set_op set_model_op_def cong: if_cong)

lemma squared_objective_rule_sets:
  "squared_objective_rule self (set_model_op rel m) = squared_objective_rule self m"
  "squared_objective_rule2 self2 (set_model_op rel m) = squared_objective_rule2 self2 m"
  by (simp_all add: squared_objective_rule_def squared_objective_rule2_def set_model_op_def)

lemma squared_objective_rule2_switch:
  "squared_objective_rule2 (self\<lparr>self_fun := f\<rparr>) = squared_objective_rule2 self"
  by (simp add: squared_objective_rule2_def fun_eq_iff)

lemma CERZG1_init_switch_cost:
  "CERZG1_init (self\<lparr>self_fun := FUN_COST\<rparr>) =
     map_sum id (set_model_op GE) (CERZG1_init (self\<lparr>self_fun := FUN_PROD\<rparr>))"
  by (cases "CQRZG1_init (self\<lparr>self_fun := FUN_PROD\<rparr>)")
    (simp_all add: CERZG1_init_def CQRZG1_init_switch_cost other_rules_switch
      squared_objective_rule_sets, simp add: set_model_op_def)

lemma CERZG2_init_switch_cost:
  "CERZG2_init (self\<lparr>self_fun := FUN_COST\<rparr>) =
     map_sum id (set_model_op GE) (CERZG2_init (self\<lparr>self_fun := FUN_PROD\<rparr>))"
  by (cases "CQRZG2_init (self\<lparr>self_fun := FUN_PROD\<rparr>)")
    (simp_all add: CERZG2_init_def CQRZG2_init_switch_cost squared_objective_rule2_switch
      squared_objective_rule_sets, simp add: set_model_op_def)



lemma expr_val_foldl:
  "expr_val \<rho> (foldl Add acc ts) = expr_val \<rho> acc + sum_list (map (expr_val \<rho>) ts)"
  by (induction ts arbitrary: acc) simp_all

lemma expr_val_pysum: "expr_val \<rho> (pysum ts) = sum_list (map (expr_val \<rho>) ts)"
  by (simp add: pysum_def expr_val_foldl)

lemma expr_val_objective:
  "expr_val \<rho> (objective_rule self m) =
     (1 - self_tau self) * (\<Sum>i\<leftarrow>model_I m. \<rho> (epsilon_plus i))
     + self_tau self * (\<Sum>i\<leftarrow>model_I m. \<rho> (epsilon_minus i))"
  by (simp add: objective_rule_def expr_val_pysum o_def)


lemma objective_rule_sets:
  "model_I m = model_I m' \<Longrightarrow> objective_rule self m = objective_rule self m'"
  by (simp add: objective_rule_def)

lemma CQRZG1_init_objective:
  assumes "CQRZG1_init self = Inr mdl"
  shows "model_objective mdl = \<lparr>obj_expr = objective_rule self mdl, obj_active = True\<rparr>"
    and "model_squared_objective mdl = None"
    and "model_I mdl = [0..<length (self_y self)]"
proof -
  from CQRZG1_init_Inr_D [OF assms]
  have o: "model_objective mdl = \<lparr>obj_expr = objective_rule self (init_sets self), obj_active = True\<rparr>"
    and s: "model_squared_objective mdl = None"
    and I: "model_I mdl = [0..<length (self_y self)]"
    by auto
  have "objective_rule self (init_sets self) = objective_rule self mdl"
    by (rule objective_rule_sets) (simp add: I)
  with o s I show "model_objective mdl = \<lparr>obj_expr = objective_rule self mdl, obj_active = True\<rparr>"
    and "model_squared_objective mdl = None"
    and "model_I mdl = [0..<length (self_y self)]"
    by simp_all
qed

lemma CQRZG2_init_objective:
  assumes "CQRZG2_init self = Inr mdl"
  shows "model_objective mdl = \<lparr>obj_expr = objective_rule self mdl, obj_active = True\<rparr>"
    and "model_squared_objective mdl = None"
    and "model_I mdl = [0..<length (self_y self)]"
proof -
  from CQRZG2_init_Inr_D [OF assms] obtain m sw2 where
    m: "CQRZG1_init self = Inr m" and mdl: "mdl = m\<lparr>model_sweet_rule2 := Some sw2\<rparr>"
    by auto
  have "objective_rule self m = objective_rule self mdl"
    by (rule objective_rule_sets) (simp add: mdl)
  with CQRZG1_init_objective [OF m] mdl
  show "model_objective mdl = \<lparr>obj_expr = objective_rule self mdl, obj_active = True\<rparr>"
    and "model_squared_objective mdl = None"
    and "model_I mdl = [0..<length (self_y self)]"
    by simp_all
qed







lemma linear_expr_foldl:
  "linear_expr acc \<Longrightarrow> list_all linear_expr ts \<Longrightarrow> linear_expr (foldl Add acc ts)"
  by (induction ts arbitrary: acc) simp_all

lemma linear_objective: "linear_expr (objective_rule self m)"
  by (simp add: objective_rule_def pysum_def linear_expr_foldl list_all_iff)

lemma not_linear_foldl:
  "\<not> linear_expr acc \<Longrightarrow> \<not> linear_expr (foldl Add acc ts)"
  by (induction ts arbitrary: acc) simp_all

lemma not_const_foldl:
  "\<not> const_expr acc \<Longrightarrow> \<not> const_expr (foldl Add acc ts)"
  by (induction ts arbitrary: acc) simp_all

lemma not_linear_squared_objective:
  "model_I m \<noteq> [] \<Longrightarrow> \<not> linear_expr (squared_objective_rule self m)"
  by (cases "model_I m")
    (simp_all add: squared_objective_rule_def pysum_def not_linear_foldl not_const_foldl)

lemma sweet_rule2_agrees:
  assumes "self_active self = self_cutactive self"
    and "self_cet self \<noteq> CET_ADDI \<or> self_rts self \<noteq> RTS_CRS"
  shows "sweet_rule2 self = sweet_rule self"
  using assms
  by (cases "self_cet self"; cases "self_rts self")
    (simp_all add: sweet_rule2_def sweet_rule_def Let_def)

lemma regression_rule_addi_vrs_Inr_D:
  assumes "regression_rule self = Inr rr" and "rr m i = Inr c"
    and "self_cet self = CET_ADDI" and "self_rts self = RTS_VRS1"
  shows "c = Rel EQ (Num (self_y self ! i))
               (Add (Sub (Sub (Add (V (alpha i)) (spec_beta_x (self_x self) (model_J m) i i))
                              (spec_lamda_z (the (self_z self)) (model_K m) i))
                         (V (epsilon_minus i)))
                    (V (epsilon_plus i)))"
  using assms
  by (auto simp: regression_rule_def bindE_eq_Inr index1_Inr sum_beta_x_def
      dest!: sum_lamda_z_Inr_D beta_x_sum_Inr_D)

lemma regression_rule_addi_crs_Inr_D:
  assumes "regression_rule self = Inr rr" and "rr m i = Inr c"
    and "self_cet self = CET_ADDI" and "self_rts self = RTS_CRS"
  shows "c = Rel EQ (Num (self_y self ! i))
               (Add (Sub (Add (spec_beta_x (self_x self) (model_J m) i i)
                              (spec_lamda_z (the (self_z self)) (model_K m) i))
                         (V (epsilon_minus i)))
                    (V (epsilon_plus i)))"
  using assms
  by (auto simp: regression_rule_def bindE_eq_Inr index1_Inr sum_beta_x_def
      dest!: sum_lamda_z_Inr_D beta_x_sum_Inr_D)

lemma undefined_parameters_cet:
  assumes "self_cet self = CET_OTHER"
  shows "regression_rule self = Inl (ValueError ''Undefined model parameters.'')"
    and "log_rule self = Inl (ValueError ''Undefined model parameters.'')"
    and "afriat_rule self = Inl (ValueError ''Undefined model parameters.'')"
    and "sweet_rule self = Inl (ValueError ''Undefined model parameters.'')"
  using assms by (simp_all add: rule_defs Let_def)

lemma undefined_parameters_rts:
  assumes "self_rts self = RTS_OTHER"
  shows "self_cet self \<noteq> CET_MULT \<Longrightarrow>
           regression_rule self = Inl (ValueError ''Undefined model parameters.'')"
    and "log_rule self = Inl (ValueError ''Undefined model parameters.'')"
    and "afriat_rule self = Inl (ValueError ''Undefined model parameters.'')"
    and "sweet_rule self = Inl (ValueError ''Undefined model parameters.'')"
  using assms by (simp_all add: rule_defs Let_def)

lemma undefined_parameters_not_assembled:
  assumes "self_cet self = CET_OTHER \<or> self_rts self = RTS_OTHER"
  shows "isl (CQRZG1_init self)"
proof (cases "CQRZG1_init self")
  case (Inl e)
  then show ?thesis by simp
next
  case (Inr m)
  from CQRZG1_init_config [OF Inr] assms show ?thesis by auto
qed

lemma CQRZG1_init_z:
  assumes "self_z self = None \<or> self_z self = Some []"
  shows "isl (CQRZG1_init self)"
    and "self_x self \<noteq> [] \<Longrightarrow>
           CQRZG1_init self = Inl (if self_z self = None then TypeError else IndexError)"
  using assms
  by (auto simp: CQRZG1_init_def zindex1_def index1_def bindE_def split: sum.splits)

lemma CERZG1_init_z:
  assumes "self_z s = None \<or> self_z s = Some []"
  shows "isl (CQRZG1_init s) \<and> isl (CERZG1_init s) \<and>
      (self_x s \<noteq> [] \<longrightarrow>
         CQRZG1_init s = Inl (if self_z s = None then TypeError else IndexError) \<and>
         CERZG1_init s = Inl (if self_z s = None then TypeError else IndexError))"
proof -
  note z = CQRZG1_init_z [OF assms]
  from z(1) have "isl (CERZG1_init s)"
    by (cases "CQRZG1_init s") (simp_all add: CERZG1_init_def)
  moreover have "self_x s \<noteq> [] \<Longrightarrow>
      CERZG1_init s = Inl (if self_z s = None then TypeError else IndexError)"
    using z(2) by (simp add: CERZG1_init_def)
  ultimately show ?thesis using z by blast
qed

lemma CERZG2_init_z:
  assumes "self_z s = None \<or> self_z s = Some []"
  shows "isl (CQRZG2_init s) \<and> isl (CERZG2_init s) \<and>
      (self_x s \<noteq> [] \<longrightarrow>
         CQRZG2_init s = Inl (if self_z s = None then TypeError else IndexError) \<and>
         CERZG2_init s = Inl (if self_z s = None then TypeError else IndexError))"
proof -
  note z = CQRZG1_init_z [OF assms]
  from z(1) have 1: "isl (CQRZG2_init s)"
    by (cases "CQRZG1_init s") (simp_all add: CQRZG2_init_eq)
  then have 2: "isl (CERZG2_init s)"
    by (cases "CQRZG2_init s") (simp_all add: CERZG2_init_def)
  have 3: "self_x s \<noteq> [] \<Longrightarrow>
      CQRZG2_init s = Inl (if self_z s = None then TypeError else IndexError)"
    using z(2) by (simp add: CQRZG2_init_eq)
  then have "self_x s \<noteq> [] \<Longrightarrow>
      CERZG2_init s = Inl (if self_z s = None then TypeError else IndexError)"
    by (simp add: CERZG2_init_def)
  with 1 2 3 show ?thesis by blast
qed

lemma CQRZG1_init_K:
  assumes "CQRZG1_init s = Inr mdl"
  shows "\<exists>row rows. self_z s = Some (row # rows) \<and> model_K mdl = [0..<length row]"
proof -
  from CQRZG1_init_Inr_D [OF assms] obtain zz where
    "self_z s = Some zz" "zz \<noteq> []" "model_K mdl = [0..<length (the (self_z s) ! 0)]"
    by auto
  then show ?thesis by (cases zz) simp_all
qed

lemma collect_total:
  "(\<And>x. x \<in> set xs \<Longrightarrow> \<exists>v. f x = Inr v) \<Longrightarrow> \<exists>vs. collect (map f xs) = Inr vs"
proof (induction xs)
  case Nil
  then show ?case by simp
next
  case (Cons a xs)
  then obtain v vs where "f a = Inr v" "collect (map f xs) = Inr vs"
    by (metis list.set_intros(1,2))
  then show ?case by simp
qed

lemma Constraint_total:
  assumes "\<And>i. i \<in> set idx \<Longrightarrow> \<exists>c. rule i = Inr c"
  shows "\<exists>cs. Constraint idx rule = Inr cs"
proof -
  have "\<exists>vs. collect (map (\<lambda>i. bindE (rule i) (\<lambda>c. Inr (i, c))) idx) = Inr vs"
  proof (rule collect_total)
    fix i assume "i \<in> set idx"
    from assms [OF this] obtain c where "rule i = Inr c" ..
    then show "\<exists>v. bindE (rule i) (\<lambda>c. Inr (i, c)) = Inr v" by simp
  qed
  then show ?thesis by (auto simp: Constraint_def)
qed

lemma sum_lamda_z_ok:
  assumes "self_z self = Some zz" and "i < length zz"
    and "\<And>k. k \<in> set (model_K m) \<Longrightarrow> k < length (zz ! i)"
  shows "sum_lamda_z self m i = Inr (spec_lamda_z zz (model_K m) i)"
proof -
  have "collect (map (\<lambda>k. bindE (zindex2 (self_z self) i k) (\<lambda>v. Inr (Mul (V (lamda k)) (Num v))))
          (model_K m))
        = Inr (map (\<lambda>k. Mul (V (lamda k)) (Num (zz ! i ! k))) (model_K m))"
    by (rule collect_all_Inr) (use assms in \<open>simp add: zindex2_def zindex1_def index1_def\<close>)
  then show ?thesis by (simp add: sum_lamda_z_def pysum_gen_def spec_lamda_z_def)
qed

lemma well_formed_D:
  assumes "well_formed self"
  shows "self_cet self = CET_ADDI \<or> self_cet self = CET_MULT"
    and "self_rts self = RTS_VRS1 \<or> self_rts self = RTS_CRS"
    and "self_fun self = FUN_PROD \<or> self_fun self = FUN_COST"
    and "self_y self \<noteq> []"
    and "length (self_x self) = length (self_y self)"
    and "list_all (\<lambda>row. length row = length (self_x self ! 0)) (self_x self)"
    and "case self_z self of
           None \<Rightarrow> False
         | Some zz \<Rightarrow> length zz = length (self_y self) \<and>
                     list_all (\<lambda>row. length row = length (zz ! 0)) zz"
    and "length (self_cutactive self) = length (self_y self)"
    and "list_all (\<lambda>row. length row = length (self_y self)) (self_cutactive self)"
    and "if self_cet self = CET_MULT then list_all (\<lambda>v. 0 < v) (self_y self) else True"
    and "self_x self ! 0 \<noteq> []"
    and "if self_rts self = RTS_CRS then list_all (list_ex (\<lambda>v. v \<noteq> 0)) (self_x self)
         else True"
  using assms unfolding well_formed_def by blast+

lemma well_formed_rows:
  assumes "well_formed self" and "i < length (self_y self)"
  shows "i < length (self_x self)"
    and "length (self_x self ! i) = length (self_x self ! 0)"
    and "\<exists>zz. self_z self = Some zz \<and> zz \<noteq> [] \<and> i < length zz \<and> length (zz ! i) = length (zz ! 0)"
    and "i < length (self_cutactive self)"
    and "length (self_cutactive self ! i) = length (self_y self)"
    and "self_x self \<noteq> []"
    and "self_cet self = CET_MULT \<Longrightarrow> 0 < self_y self ! i"
proof -
  note wf = well_formed_D [OF assms(1)]
  from wf(5) assms(2) show x: "i < length (self_x self)" by simp
  from wf(6) x show "length (self_x self ! i) = length (self_x self ! 0)"
    by (simp add: list_all_length)
  from x show "self_x self \<noteq> []" by auto
  from wf(8) assms(2) show g: "i < length (self_cutactive self)" by simp
  from wf(9) g show "length (self_cutactive self ! i) = length (self_y self)"
    by (simp add: list_all_length)
  from wf(7) obtain zz where zz: "self_z self = Some zz" "length zz = length (self_y self)"
    "list_all (\<lambda>row. length row = length (zz ! 0)) zz"
    by (cases "self_z self") simp_all
  from zz(2) assms(2) have iz: "i < length zz" by simp
  with zz(3) have "length (zz ! i) = length (zz ! 0)" by (simp add: list_all_length)
  moreover from iz have "zz \<noteq> []" by auto
  ultimately show "\<exists>zz. self_z self = Some zz \<and> zz \<noteq> [] \<and> i < length zz \<and>
      length (zz ! i) = length (zz ! 0)"
    using zz(1) iz by blast
  show "0 < self_y self ! i" if "self_cet self = CET_MULT"
    using wf(10) that assms(2) by (simp add: list_all_length)
qed

lemma sum_beta_x_init_ok:
  assumes "well_formed self" and "i < length (self_y self)"
  shows "sum_beta_x self (init_sets self) c i =
           Inr (spec_beta_x (self_x self) [0..<length (self_x self ! 0)] c i)"
  unfolding sum_beta_x_def init_sets_simps
  by (rule beta_x_sum_ok) (use well_formed_rows [OF assms] in simp_all)

lemma sum_lamda_z_init_ok:
  assumes "well_formed self" and "i < length (self_y self)"
  shows "\<exists>e. sum_lamda_z self (init_sets self) i = Inr e"
proof -
  from well_formed_rows(3) [OF assms] obtain zz where
    zz: "self_z self = Some zz" "i < length zz" "length (zz ! i) = length (zz ! 0)" by blast
  have "sum_lamda_z self (init_sets self) i = Inr (spec_lamda_z zz (model_K (init_sets self)) i)"
    by (rule sum_lamda_z_ok [OF zz(1,2)]) (simp add: zz)
  then show ?thesis ..
qed

lemma regression_rule_total:
  assumes "well_formed self" and "i < length (self_y self)"
  shows "\<exists>rr. regression_rule self = Inr rr \<and> (\<exists>c. rr (init_sets self) i = Inr c)"
proof -
  from sum_lamda_z_init_ok [OF assms] obtain lz where
    lz: "sum_lamda_z self (init_sets self) i = Inr lz" ..
  note bx = sum_beta_x_init_ok [OF assms, of i]
  note cfg = well_formed_D(1-2) [OF assms(1)]
  show ?thesis
  proof (cases "self_cet self = CET_MULT")
    case True
    with well_formed_rows(7) [OF assms] lz assms(2) show ?thesis
      by (simp add: regression_rule_def index1_def log_data_def)
  next
    case False
    with cfg lz bx assms(2) show ?thesis
      by (auto simp: regression_rule_def index1_def)
  qed
qed

lemma log_rule_total:
  assumes "well_formed self" and "i < length (self_y self)" and "self_cet self = CET_MULT"
  shows "\<exists>lr. log_rule self = Inr lr \<and> (\<exists>c. lr (init_sets self) i = Inr c)"
proof -
  note bx = sum_beta_x_init_ok [OF assms(1,2), of i]
  from well_formed_D(2) [OF assms(1)] have "self_rts self = RTS_VRS1 \<or> self_rts self = RTS_CRS" .
  with bx assms(3) show ?thesis
    by (auto simp: log_rule_def)
qed

lemma afriat_rule_total:
  assumes "well_formed self" and "i < length (self_y self)"
  shows "\<exists>ar. afriat_rule self = Inr ar \<and> (\<exists>c. ar (init_sets self) i = Inr c)"
proof -
  note bx = sum_beta_x_init_ok [OF assms]
  note cfg = well_formed_D(1-3) [OF assms(1)]
  from cfg show ?thesis
    by (auto simp: afriat_rule_def Let_def operator_of_def call_operator_def alpha_plus_def bx)
qed

lemma sweet_rule_total:
  assumes "well_formed self" and "i < length (self_y self)" and "h < length (self_y self)"
  shows "\<exists>sr. sweet_rule self = Inr sr \<and> (\<exists>c. sr (init_sets self) i h = Inr c)"
proof -
  note bx = sum_beta_x_init_ok [OF assms(1,2)]
  from well_formed_rows(4,5) [OF assms(1,2)] assms(3)
  have g: "index2 (self_cutactive self) i h = Inr (self_cutactive self ! i ! h)"
    by (simp add: index2_def index1_def)
  note cfg = well_formed_D(1-3) [OF assms(1)]
  from cfg g show ?thesis
    by (auto simp: sweet_rule_def Let_def operator_of_def call_operator_def alpha_plus_def bx)
qed

lemma sweet_rule2_total:
  assumes "well_formed2 self" and "i < length (self_y self)" and "h < length (self_y self)"
  shows "\<exists>sr. sweet_rule2 self = Inr sr \<and> (\<exists>c. sr (init_sets self) i h = Inr c)"
proof -
  from assms(1) have wf: "well_formed self" by (simp add: well_formed2_def)
  note bx = sum_beta_x_init_ok [OF wf assms(2)]
  from assms have g: "index2 (self_active self) i h = Inr (self_active self ! i ! h)"
    by (simp add: index2_def index1_def well_formed2_def list_all_length)
  note cfg = well_formed_D(1-3) [OF wf]
  from cfg g show ?thesis
    by (auto simp: sweet_rule2_def Let_def operator_of_def call_operator_def alpha_plus_def bx)
qed

lemma CQRZG1_init_total:
  assumes "well_formed self"
  shows "\<exists>mdl. CQRZG1_init self = Inr mdl"
proof -
  from well_formed_D(4) [OF assms] have y: "0 < length (self_y self)" by simp
  note x = well_formed_rows(6) [OF assms y]
  from well_formed_rows(3) [OF assms y] obtain zz where
    z: "self_z self = Some zz" "zz \<noteq> []"
    by blast
  have x0: "index1 (self_x self) 0 = Inr (self_x self ! 0)"
    and z0: "zindex1 (self_z self) 0 = Inr (zz ! 0)"
    using x z by (simp_all add: index1_def zindex1_def)
  have s: "\<lparr>model_I = [0..<length (self_y self)], model_J = [0..<length (self_x self ! 0)],
            model_K = [0..<length (zz ! 0)]\<rparr> = init_sets self"
    using z by (simp add: init_sets_def)
  from regression_rule_total [OF assms y] obtain rr :: "index_sets \<Rightarrow> nat \<Rightarrow> error + constr"
    where rr: "regression_rule self = Inr rr"
    by blast
  have "\<exists>reg. Constraint [0..<length (self_y self)] (rr (init_sets self)) = Inr reg"
    by (rule Constraint_total) (use regression_rule_total [OF assms] rr in auto)
  then obtain reg where reg: "Constraint [0..<length (self_y self)] (rr (init_sets self)) = Inr reg" ..
  have "\<exists>lg. (if self_cet self = CET_MULT then
              bindE (log_rule self) (\<lambda>lr.
              bindE (Constraint [0..<length (self_y self)] (lr (init_sets self))) (\<lambda>lg. Inr (Some lg)))
            else Inr None) = Inr lg"
  proof (cases "self_cet self = CET_MULT")
    case True
    from log_rule_total [OF assms y True] obtain lr :: "index_sets \<Rightarrow> nat \<Rightarrow> error + constr"
      where lr: "log_rule self = Inr lr" by blast
    have "\<exists>lgs. Constraint [0..<length (self_y self)] (lr (init_sets self)) = Inr lgs"
      by (rule Constraint_total) (use log_rule_total [OF assms _ True] lr in auto)
    with True lr show ?thesis by auto
  next
    case False
    then show ?thesis by simp
  qed
  then obtain lg where lg: "(if self_cet self = CET_MULT then
              bindE (log_rule self) (\<lambda>lr.
              bindE (Constraint [0..<length (self_y self)] (lr (init_sets self))) (\<lambda>lg. Inr (Some lg)))
            else Inr None) = Inr lg" ..
  from afriat_rule_total [OF assms y] obtain ar :: "index_sets \<Rightarrow> nat \<Rightarrow> error + constr"
    where ar: "afriat_rule self = Inr ar" by blast
  have "\<exists>afr. Constraint [0..<length (self_y self)] (ar (init_sets self)) = Inr afr"
    by (rule Constraint_total) (use afriat_rule_total [OF assms] ar in auto)
  then obtain afr where afr: "Constraint [0..<length (self_y self)] (ar (init_sets self)) = Inr afr" ..
  from sweet_rule_total [OF assms y y] obtain sr :: "index_sets \<Rightarrow> nat \<Rightarrow> nat \<Rightarrow> error + constr"
    where sr: "sweet_rule self = Inr sr" by blast
  have "\<exists>sw. Constraint (List.product [0..<length (self_y self)] [0..<length (self_y self)])
               (\<lambda>ih. sr (init_sets self) (fst ih) (snd ih)) = Inr sw"
    by (rule Constraint_total) (use sweet_rule_total [OF assms] sr in auto)
  then obtain sw where sw: "Constraint (List.product [0..<length (self_y self)] [0..<length (self_y self)])
               (\<lambda>ih. sr (init_sets self) (fst ih) (snd ih)) = Inr sw" ..
  show ?thesis
    unfolding CQRZG1_init_def x0 z0 bindE_Inr Let_def s index_sets.simps rr
    by (simp add: reg lg ar afr sr sw)
qed

lemma CQRZG2_init_total:
  assumes "well_formed2 self"
  shows "\<exists>mdl. CQRZG2_init self = Inr mdl"
proof -
  from assms have wf: "well_formed self" by (simp add: well_formed2_def)
  from well_formed_D(4) [OF wf] have y: "0 < length (self_y self)" by simp
  from CQRZG1_init_total [OF wf] obtain m where m: "CQRZG1_init self = Inr m" ..
  from CQRZG1_init_Inr_D [OF m] have I: "model_I m = [0..<length (self_y self)]"
    and t: "index_sets.truncate m = init_sets self"
    by (auto simp: index_sets.truncate_def init_sets_def)
  from sweet_rule2_total [OF assms y y] obtain sr :: "index_sets \<Rightarrow> nat \<Rightarrow> nat \<Rightarrow> error + constr"
    where sr: "sweet_rule2 self = Inr sr" by blast
  have "\<exists>sw. Constraint (List.product [0..<length (self_y self)] [0..<length (self_y self)])
               (\<lambda>ih. sr (init_sets self) (fst ih) (snd ih)) = Inr sw"
    by (rule Constraint_total) (use sweet_rule2_total [OF assms] sr in auto)
  then obtain sw where "Constraint (List.product [0..<length (self_y self)] [0..<length (self_y self)])
               (\<lambda>ih. sr (init_sets self) (fst ih) (snd ih)) = Inr sw" ..
  then show ?thesis by (simp add: CQRZG2_init_eq m sr I t)
qed

lemma CERZG_init_total:
  "well_formed self \<Longrightarrow> \<exists>mdl. CERZG1_init self = Inr mdl"
  "well_formed2 self2 \<Longrightarrow> \<exists>mdl. CERZG2_init self2 = Inr mdl"
  using CQRZG1_init_total [of self] CQRZG2_init_total [of self2]
  by (auto simp: CERZG1_init_def CERZG2_init_def)

lemma well_formed_examples:
  "well_formed example1" "well_formed2 example2" "well_formed example3"
  by (simp_all add: well_formed_def well_formed2_def example1_def example2_def example3_def)

lemma CQRZG2_init_afriat:
  assumes "CQRZG2_init self = Inr mdl"
  shows "model_I mdl = [0..<length (self_y self)]"
    and "model_J mdl = [0..<length (self_x self ! 0)]"
    and "model_afriat_rule mdl =
           map (\<lambda>i. (i, Rel (if self_fun self = FUN_PROD then LE else GE)
                  (spec_predictor (self_rts self) (self_x self) (model_J mdl) i i)
                  (spec_predictor (self_rts self) (self_x self) (model_J mdl)
                     (Suc i mod length (self_y self)) i)))
             [0..<length (self_y self)]"
    and "model_sweet_rule mdl =
           map (\<lambda>ih. (ih, Rel (if self_fun self = FUN_PROD then LE else GE)
                  (spec_predictor (self_rts self) (self_x self) (model_J mdl) (fst ih) (fst ih))
                  (spec_predictor (self_rts self) (self_x self) (model_J mdl) (snd ih) (fst ih))))
             (filter (\<lambda>ih. truthy (self_cutactive self ! fst ih ! snd ih) \<and> fst ih \<noteq> snd ih)
                (List.product [0..<length (self_y self)] [0..<length (self_y self)]))"
proof -
  from CQRZG2_init_Inr_D [OF assms] obtain m sw2 where
    m: "CQRZG1_init self = Inr m" and mdl: "mdl = m\<lparr>model_sweet_rule2 := Some sw2\<rparr>"
    by auto
  from mdl have e: "model_I mdl = model_I m" "model_J mdl = model_J m"
    "model_afriat_rule mdl = model_afriat_rule m" "model_sweet_rule mdl = model_sweet_rule m"
    by simp_all
  from CQRZG1_init_Inr_D [OF m] have s: "model_I m = [0..<length (self_y self)]"
    "model_J m = [0..<length (self_x self ! 0)]"
    by auto
  from s e show "model_I mdl = [0..<length (self_y self)]"
    and "model_J mdl = [0..<length (self_x self ! 0)]"
    by simp_all
  from CQRZG1_init_afriat [OF m] e show "model_afriat_rule mdl =
           map (\<lambda>i. (i, Rel (if self_fun self = FUN_PROD then LE else GE)
                  (spec_predictor (self_rts self) (self_x self) (model_J mdl) i i)
                  (spec_predictor (self_rts self) (self_x self) (model_J mdl)
                     (Suc i mod length (self_y self)) i)))
             [0..<length (self_y self)]"
    by (simp only:)
  from CQRZG1_init_sweet [OF m] e show "model_sweet_rule mdl =
           map (\<lambda>ih. (ih, Rel (if self_fun self = FUN_PROD then LE else GE)
                  (spec_predictor (self_rts self) (self_x self) (model_J mdl) (fst ih) (fst ih))
                  (spec_predictor (self_rts self) (self_x self) (model_J mdl) (snd ih) (fst ih))))
             (filter (\<lambda>ih. truthy (self_cutactive self ! fst ih ! snd ih) \<and> fst ih \<noteq> snd ih)
                (List.product [0..<length (self_y self)] [0..<length (self_y self)]))"
    by (simp only:)
qed

lemma gate_open_eq:
  "gate_open G = (\<lambda>ih. truthy (G ! fst ih ! snd ih) \<and> fst ih \<noteq> snd ih)"
  by (simp add: gate_open_def fun_eq_iff)

lemma map_apsnd_set_op:
  "map (apsnd (set_op rel)) (map (\<lambda>i. (i, Rel r (a i) (b i))) xs) =
     map (\<lambda>i. (i, Rel rel (a i) (b i))) xs"
  by (simp add: o_def)

lemma set_model_op_fields:
  "model_I (set_model_op rel m) = model_I m"
  "model_J (set_model_op rel m) = model_J m"
  "model_K (set_model_op rel m) = model_K m"
  "model_vars (set_model_op rel m) = model_vars m"
  "model_objective (set_model_op rel m) = model_objective m"
  "model_squared_objective (set_model_op rel m) = model_squared_objective m"
  "model_regression_rule (set_model_op rel m) = model_regression_rule m"
  "model_log_rule (set_model_op rel m) = model_log_rule m"
  "model_afriat_rule (set_model_op rel m) = map (apsnd (set_op rel)) (model_afriat_rule m)"
  "model_sweet_rule (set_model_op rel m) = map (apsnd (set_op rel)) (model_sweet_rule m)"
  "model_sweet_rule2 (set_model_op rel m) =
     map_option (map (apsnd (set_op rel))) (model_sweet_rule2 m)"
  by (simp_all add: set_model_op_def)

lemma operator_of_values:
  "operator_of FUN_PROD = Some LE" "operator_of FUN_COST = Some GE"
  by (simp_all add: operator_of_def)

lemma frontier_switch_G1:
  assumes "CQRZG1_init (self\<lparr>self_fun := FUN_PROD\<rparr>) = Inr mp"
  shows "model_I mp = [0..<length (self_y self)] \<and>
      model_J mp = [0..<length (self_x self ! 0)] \<and>
      model_afriat_rule mp =
        map (\<lambda>i. (i, Rel LE
               (spec_predictor (self_rts self) (self_x self) (model_J mp) i i)
               (spec_predictor (self_rts self) (self_x self) (model_J mp)
                  (Suc i mod length (self_y self)) i)))
          [0..<length (self_y self)] \<and>
      model_sweet_rule mp =
        map (\<lambda>ih. (ih, Rel LE
               (spec_predictor (self_rts self) (self_x self) (model_J mp) (fst ih) (fst ih))
               (spec_predictor (self_rts self) (self_x self) (model_J mp) (snd ih) (fst ih))))
          (filter (gate_open (self_cutactive self))
             (List.product [0..<length (self_y self)] [0..<length (self_y self)])) \<and>
      CQRZG1_init (self\<lparr>self_fun := FUN_COST\<rparr>) = Inr (set_model_op GE mp) \<and>
      model_afriat_rule (set_model_op GE mp) =
        map (\<lambda>i. (i, Rel GE
               (spec_predictor (self_rts self) (self_x self) (model_J mp) i i)
               (spec_predictor (self_rts self) (self_x self) (model_J mp)
                  (Suc i mod length (self_y self)) i)))
          [0..<length (self_y self)] \<and>
      model_sweet_rule (set_model_op GE mp) =
        map (\<lambda>ih. (ih, Rel GE
               (spec_predictor (self_rts self) (self_x self) (model_J mp) (fst ih) (fst ih))
               (spec_predictor (self_rts self) (self_x self) (model_J mp) (snd ih) (fst ih))))
          (filter (gate_open (self_cutactive self))
             (List.product [0..<length (self_y self)] [0..<length (self_y self)])) \<and>
      model_regression_rule (set_model_op GE mp) = model_regression_rule mp \<and>
      model_log_rule (set_model_op GE mp) = model_log_rule mp \<and>
      model_objective (set_model_op GE mp) = model_objective mp \<and>
      model_vars (set_model_op GE mp) = model_vars mp"
proof -
  from CQRZG1_init_Inr_D [OF assms] have s: "model_I mp = [0..<length (self_y self)]"
    "model_J mp = [0..<length (self_x self ! 0)]"
    by auto
  from CQRZG1_init_afriat [OF assms] have a: "model_afriat_rule mp =
        map (\<lambda>i. (i, Rel LE
               (spec_predictor (self_rts self) (self_x self) (model_J mp) i i)
               (spec_predictor (self_rts self) (self_x self) (model_J mp)
                  (Suc i mod length (self_y self)) i)))
          [0..<length (self_y self)]"
    by simp
  from CQRZG1_init_sweet [OF assms] have w: "model_sweet_rule mp =
        map (\<lambda>ih. (ih, Rel LE
               (spec_predictor (self_rts self) (self_x self) (model_J mp) (fst ih) (fst ih))
               (spec_predictor (self_rts self) (self_x self) (model_J mp) (snd ih) (fst ih))))
          (filter (gate_open (self_cutactive self))
             (List.product [0..<length (self_y self)] [0..<length (self_y self)]))"
    by (simp add: gate_open_eq)
  have c: "CQRZG1_init (self\<lparr>self_fun := FUN_COST\<rparr>) = Inr (set_model_op GE mp)"
    by (simp add: CQRZG1_init_switch_cost assms)
  have a': "model_afriat_rule (set_model_op GE mp) =
        map (\<lambda>i. (i, Rel GE
               (spec_predictor (self_rts self) (self_x self) (model_J mp) i i)
               (spec_predictor (self_rts self) (self_x self) (model_J mp)
                  (Suc i mod length (self_y self)) i)))
          [0..<length (self_y self)]"
    unfolding set_model_op_fields by (subst a) (rule map_apsnd_set_op)
  have w': "model_sweet_rule (set_model_op GE mp) =
        map (\<lambda>ih. (ih, Rel GE
               (spec_predictor (self_rts self) (self_x self) (model_J mp) (fst ih) (fst ih))
               (spec_predictor (self_rts self) (self_x self) (model_J mp) (snd ih) (fst ih))))
          (filter (gate_open (self_cutactive self))
             (List.product [0..<length (self_y self)] [0..<length (self_y self)]))"
    unfolding set_model_op_fields by (subst w) (rule map_apsnd_set_op)
  from s a w c a' w' show ?thesis
    by (simp only: set_model_op_fields simp_thms)
qed

lemma frontier_switch_G2:
  assumes "CQRZG2_init (self\<lparr>self_fun := FUN_PROD\<rparr>) = Inr mp"
  shows "model_I mp = [0..<length (self_y self)] \<and>
      model_J mp = [0..<length (self_x self ! 0)] \<and>
      model_afriat_rule mp =
        map (\<lambda>i. (i, Rel LE
               (spec_predictor (self_rts self) (self_x self) (model_J mp) i i)
               (spec_predictor (self_rts self) (self_x self) (model_J mp)
                  (Suc i mod length (self_y self)) i)))
          [0..<length (self_y self)] \<and>
      model_sweet_rule mp =
        map (\<lambda>ih. (ih, Rel LE
               (spec_predictor (self_rts self) (self_x self) (model_J mp) (fst ih) (fst ih))
               (spec_predictor (self_rts self) (self_x self) (model_J mp) (snd ih) (fst ih))))
          (filter (gate_open (self_cutactive self))
             (List.product [0..<length (self_y self)] [0..<length (self_y self)])) \<and>
      model_sweet_rule2 mp = Some
        (map (\<lambda>ih. (ih, Rel LE
               (spec_predictor (sweet_rule2_rts (self_cet self) (self_rts self))
                  (self_x self) (model_J mp) (fst ih) (fst ih))
               (spec_predictor (sweet_rule2_rts (self_cet self) (self_rts self))
                  (self_x self) (model_J mp) (snd ih) (fst ih))))
          (filter (gate_open (self_active self))
             (List.product [0..<length (self_y self)] [0..<length (self_y self)]))) \<and>
      CQRZG2_init (self\<lparr>self_fun := FUN_COST\<rparr>) = Inr (set_model_op GE mp) \<and>
      model_afriat_rule (set_model_op GE mp) =
        map (\<lambda>i. (i, Rel GE
               (spec_predictor (self_rts self) (self_x self) (model_J mp) i i)
               (spec_predictor (self_rts self) (self_x self) (model_J mp)
                  (Suc i mod length (self_y self)) i)))
          [0..<length (self_y self)] \<and>
      model_sweet_rule (set_model_op GE mp) =
        map (\<lambda>ih. (ih, Rel GE
               (spec_predictor (self_rts self) (self_x self) (model_J mp) (fst ih) (fst ih))
               (spec_predictor (self_rts self) (self_x self) (model_J mp) (snd ih) (fst ih))))
          (filter (gate_open (self_cutactive self))
             (List.product [0..<length (self_y self)] [0..<length (self_y self)])) \<and>
      model_sweet_rule2 (set_model_op GE mp) = Some
        (map (\<lambda>ih. (ih, Rel GE
               (spec_predictor (sweet_rule2_rts (self_cet self) (self_rts self))
                  (self_x self) (model_J mp) (fst ih) (fst ih))
               (spec_predictor (sweet_rule2_rts (self_cet self) (self_rts self))
                  (self_x self) (model_J mp) (snd ih) (fst ih))))
          (filter (gate_open (self_active self))
             (List.product [0..<length (self_y self)] [0..<length (self_y self)]))) \<and>
      model_regression_rule (set_model_op GE mp) = model_regression_rule mp \<and>
      model_log_rule (set_model_op GE mp) = model_log_rule mp \<and>
      model_objective (set_model_op GE mp) = model_objective mp \<and>
      model_vars (set_model_op GE mp) = model_vars mp"
proof -
  note g = CQRZG2_init_afriat [OF assms]
  from g(1,2) have s: "model_I mp = [0..<length (self_y self)]"
    "model_J mp = [0..<length (self_x self ! 0)]"
    by simp_all
  from g(3) have a: "model_afriat_rule mp =
        map (\<lambda>i. (i, Rel LE
               (spec_predictor (self_rts self) (self_x self) (model_J mp) i i)
               (spec_predictor (self_rts self) (self_x self) (model_J mp)
                  (Suc i mod length (self_y self)) i)))
          [0..<length (self_y self)]"
    by simp
  from g(4) have w: "model_sweet_rule mp =
        map (\<lambda>ih. (ih, Rel LE
               (spec_predictor (self_rts self) (self_x self) (model_J mp) (fst ih) (fst ih))
               (spec_predictor (self_rts self) (self_x self) (model_J mp) (snd ih) (fst ih))))
          (filter (gate_open (self_cutactive self))
             (List.product [0..<length (self_y self)] [0..<length (self_y self)]))"
    by (simp add: gate_open_eq)
  from CQRZG2_init_sweet2 [OF assms] have w2: "model_sweet_rule2 mp = Some
        (map (\<lambda>ih. (ih, Rel LE
               (spec_predictor (sweet_rule2_rts (self_cet self) (self_rts self))
                  (self_x self) (model_J mp) (fst ih) (fst ih))
               (spec_predictor (sweet_rule2_rts (self_cet self) (self_rts self))
                  (self_x self) (model_J mp) (snd ih) (fst ih))))
          (filter (gate_open (self_active self))
             (List.product [0..<length (self_y self)] [0..<length (self_y self)])))"
    by (simp add: gate_open_eq)
  have c: "CQRZG2_init (self\<lparr>self_fun := FUN_COST\<rparr>) = Inr (set_model_op GE mp)"
    by (simp add: CQRZG2_init_switch_cost assms)
  have a': "model_afriat_rule (set_model_op GE mp) =
        map (\<lambda>i. (i, Rel GE
               (spec_predictor (self_rts self) (self_x self) (model_J mp) i i)
               (spec_predictor (self_rts self) (self_x self) (model_J mp)
                  (Suc i mod length (self_y self)) i)))
          [0..<length (self_y self)]"
    unfolding set_model_op_fields by (subst a) (rule map_apsnd_set_op)
  have w': "model_sweet_rule (set_model_op GE mp) =
        map (\<lambda>ih. (ih, Rel GE
               (spec_predictor (self_rts self) (self_x self) (model_J mp) (fst ih) (fst ih))
               (spec_predictor (self_rts self) (self_x self) (model_J mp) (snd ih) (fst ih))))
          (filter (gate_open (self_cutactive self))
             (List.product [0..<length (self_y self)] [0..<length (self_y self)]))"
    unfolding set_model_op_fields by (subst w) (rule map_apsnd_set_op)
  have w2': "model_sweet_rule2 (set_model_op GE mp) = Some
        (map (\<lambda>ih. (ih, Rel GE
               (spec_predictor (sweet_rule2_rts (self_cet self) (self_rts self))
                  (self_x self) (model_J mp) (fst ih) (fst ih))
               (spec_predictor (sweet_rule2_rts (self_cet self) (self_rts self))
                  (self_x self) (model_J mp) (snd ih) (fst ih))))
          (filter (gate_open (self_active self))
             (List.product [0..<length (self_y self)] [0..<length (self_y self)])))"
    unfolding set_model_op_fields by (subst w2) (simp add: o_def)
  from s a w w2 c a' w' w2' show ?thesis
    by (simp only: set_model_op_fields simp_thms)
qed

lemma frontier_switch_relative:
  "afriat_rule (self\<lparr>self_fun := FUN_COST\<rparr>) =
     map_rule1 (set_op GE) (afriat_rule (self\<lparr>self_fun := FUN_PROD\<rparr>)) \<and>
   afriat_rule (self\<lparr>self_fun := FUN_PROD\<rparr>) =
     map_rule1 (set_op LE) (afriat_rule (self\<lparr>self_fun := FUN_COST\<rparr>)) \<and>
   sweet_rule (self\<lparr>self_fun := FUN_COST\<rparr>) =
     map_rule2 (set_op GE) (sweet_rule (self\<lparr>self_fun := FUN_PROD\<rparr>)) \<and>
   sweet_rule (self\<lparr>self_fun := FUN_PROD\<rparr>) =
     map_rule2 (set_op LE) (sweet_rule (self\<lparr>self_fun := FUN_COST\<rparr>)) \<and>
   sweet_rule2 (self2\<lparr>self_fun := FUN_COST\<rparr>) =
     map_rule2 (set_op GE) (sweet_rule2 (self2\<lparr>self_fun := FUN_PROD\<rparr>)) \<and>
   sweet_rule2 (self2\<lparr>self_fun := FUN_PROD\<rparr>) =
     map_rule2 (set_op LE) (sweet_rule2 (self2\<lparr>self_fun := FUN_COST\<rparr>)) \<and>
   regression_rule (self\<lparr>self_fun := FUN_COST\<rparr>) = regression_rule (self\<lparr>self_fun := FUN_PROD\<rparr>) \<and>
   log_rule (self\<lparr>self_fun := FUN_COST\<rparr>) = log_rule (self\<lparr>self_fun := FUN_PROD\<rparr>) \<and>
   objective_rule (self\<lparr>self_fun := FUN_COST\<rparr>) = objective_rule (self\<lparr>self_fun := FUN_PROD\<rparr>) \<and>
   squared_objective_rule (self\<lparr>self_fun := FUN_COST\<rparr>) =
     squared_objective_rule (self\<lparr>self_fun := FUN_PROD\<rparr>) \<and>
   CQRZG1_init (self\<lparr>self_fun := FUN_COST\<rparr>) =
     map_sum id (set_model_op GE) (CQRZG1_init (self\<lparr>self_fun := FUN_PROD\<rparr>)) \<and>
   CQRZG1_init (self\<lparr>self_fun := FUN_PROD\<rparr>) =
     map_sum id (set_model_op LE) (CQRZG1_init (self\<lparr>self_fun := FUN_COST\<rparr>)) \<and>
   CERZG1_init (self\<lparr>self_fun := FUN_COST\<rparr>) =
     map_sum id (set_model_op GE) (CERZG1_init (self\<lparr>self_fun := FUN_PROD\<rparr>)) \<and>
   CQRZG2_init (self2\<lparr>self_fun := FUN_COST\<rparr>) =
     map_sum id (set_model_op GE) (CQRZG2_init (self2\<lparr>self_fun := FUN_PROD\<rparr>)) \<and>
   CQRZG2_init (self2\<lparr>self_fun := FUN_PROD\<rparr>) =
     map_sum id (set_model_op LE) (CQRZG2_init (self2\<lparr>self_fun := FUN_COST\<rparr>)) \<and>
   CERZG2_init (self2\<lparr>self_fun := FUN_COST\<rparr>) =
     map_sum id (set_model_op GE) (CERZG2_init (self2\<lparr>self_fun := FUN_PROD\<rparr>))"
  by (simp only: afriat_rule_switch [symmetric] sweet_rule_switch [symmetric]
      sweet_rule2_switch [symmetric] other_rules_switch
      CQRZG1_init_switch_cost [symmetric] CQRZG1_init_switch_prod [symmetric]
      CQRZG2_init_switch_cost [symmetric] CQRZG2_init_switch_prod [symmetric]
      CERZG1_init_switch_cost [symmetric] CERZG2_init_switch_cost [symmetric] simp_thms)

section \<open>The claims\<close>

text \<open>
  C1. The phase-2 rule of \<^verbatim>\<open>CQRZG2\<close> under the additive error term and constant returns
  to scale, at the pair \<open>(0, 1)\<close> of an instance whose \<^verbatim>\<open>active\<close> and \<^verbatim>\<open>cutactive\<close>
  matrices are equal: the phase-1 rule compares the sums
  \<open>\<Sum>\<^sub>j beta[0,j]\<cdot>x[0][j]\<close> and \<open>\<Sum>\<^sub>j beta[1,j]\<cdot>x[0][j]\<close>, the phase-2 rule adds the intercepts
  \<open>alpha[0]\<close> and \<open>alpha[1]\<close> to them, and an assignment satisfies the first constraint
  and not the second.
\<close>

theorem sweet_rule2_addi_crs_form:
  "bindE (sweet_rule example_addi_crs) (\<lambda>r. r example_sets 0 1) =
     Inr (Rel LE (Add (Num 0) (Mul (V (beta 0 0)) (Num 1)))
                 (Add (Num 0) (Mul (V (beta 1 0)) (Num 1)))) \<and>
   bindE (sweet_rule2 example_addi_crs) (\<lambda>r. r example_sets 0 1) =
     Inr (Rel LE (Add (V (alpha 0)) (Add (Num 0) (Mul (V (beta 0 0)) (Num 1))))
                 (Add (V (alpha 1)) (Add (Num 0) (Mul (V (beta 1 0)) (Num 1))))) \<and>
   holds rho_alpha0
     (Rel LE (Add (Num 0) (Mul (V (beta 0 0)) (Num 1)))
             (Add (Num 0) (Mul (V (beta 1 0)) (Num 1)))) \<and>
   \<not> holds rho_alpha0
     (Rel LE (Add (V (alpha 0)) (Add (Num 0) (Mul (V (beta 0 0)) (Num 1))))
             (Add (V (alpha 1)) (Add (Num 0) (Mul (V (beta 1 0)) (Num 1)))))"
  by (simp add: example_addi_crs_def example_sets_def rho_alpha0_def rule_defs run_defs)

text \<open>
  C2. The regression rule under the additive error term and constant returns to
  scale, at observation 0 of an instance with \<open>y[0] = 3\<close>, \<open>x[0] = [1]\<close>, \<open>z[0] = [5]\<close>:
  the contextual sum \<open>lamda[0]\<cdot>5\<close> is added to the predictor, not subtracted. With
  \<open>beta[0,0] = 1\<close>, \<open>lamda[0] = 1\<close> and no residual the right side is \<open>1 + 5 = 6\<close>, where
  subtraction gives \<open>1 - 5 = -4\<close>. Under variable returns to scale the same instance
  subtracts the sum.
\<close>

theorem regression_rule_addi_crs_sign:
  "bindE (regression_rule example_addi_crs) (\<lambda>r. r example_sets 0) =
     Inr (Rel EQ (Num 3)
           (Add (Sub (Add (Add (Num 0) (Mul (V (beta 0 0)) (Num 1)))
                          (Add (Num 0) (Mul (V (lamda 0)) (Num 5))))
                     (V (epsilon_minus 0)))
                (V (epsilon_plus 0)))) \<and>
   expr_val rho_beta_lamda
     (Add (Sub (Add (Add (Num 0) (Mul (V (beta 0 0)) (Num 1)))
                    (Add (Num 0) (Mul (V (lamda 0)) (Num 5))))
               (V (epsilon_minus 0)))
          (V (epsilon_plus 0))) = 6 \<and>
   bindE (regression_rule (example_addi_crs\<lparr>self_rts := RTS_VRS1\<rparr>)) (\<lambda>r. r example_sets 0) =
     Inr (Rel EQ (Num 3)
           (Add (Sub (Sub (Add (V (alpha 0)) (Add (Num 0) (Mul (V (beta 0 0)) (Num 1))))
                          (Add (Num 0) (Mul (V (lamda 0)) (Num 5))))
                     (V (epsilon_minus 0)))
                (V (epsilon_plus 0))))"
  by (simp add: example_addi_crs_def example_sets_def rho_beta_lamda_def rule_defs run_defs)

text \<open>
  C3. In a constructed model the sweet-spot component has a constraint for the pair
  \<open>(i, h)\<close> of observations exactly when the entry \<open>[i][h]\<close> of the gating matrix is
  truthy and \<open>i \<noteq> h\<close>: a pair on the diagonal never has one, whatever the matrix
  holds, and a pair that is gated out has no entry at all. This holds for the phase-1
  component (gated by \<^verbatim>\<open>cutactive\<close>) of the models of \<^verbatim>\<open>CQRZG1\<close> and \<^verbatim>\<open>CQRZG2\<close> and
  for the phase-2 component (gated by \<^verbatim>\<open>active\<close>) of the models of \<^verbatim>\<open>CQRZG2\<close>.
\<close>

theorem sweet_spot_gating:
  assumes "CQRZG1_init self1 = Inr mdl1" and "CQRZG2_init self2 = Inr mdl2"
  shows "map fst (model_sweet_rule mdl1) =
           filter (gate_open (self_cutactive self1))
             (List.product [0..<length (self_y self1)] [0..<length (self_y self1)]) \<and>
         Skip \<notin> snd ` set (model_sweet_rule mdl1) \<and>
         map fst (model_sweet_rule mdl2) =
           filter (gate_open (self_cutactive self2))
             (List.product [0..<length (self_y self2)] [0..<length (self_y self2)]) \<and>
         Skip \<notin> snd ` set (model_sweet_rule mdl2) \<and>
         map fst (the (model_sweet_rule2 mdl2)) =
           filter (gate_open (self_active self2))
             (List.product [0..<length (self_y self2)] [0..<length (self_y self2)]) \<and>
         Skip \<notin> snd ` set (the (model_sweet_rule2 mdl2)) \<and>
         model_sweet_rule2 mdl2 \<noteq> None"
proof -
  have g: "gate_open G = (\<lambda>ih. truthy (G ! fst ih ! snd ih) \<and> fst ih \<noteq> snd ih)" for G
    by (simp add: gate_open_def fun_eq_iff)
  from CQRZG2_init_sweet [OF assms(2)] obtain m where
    m: "CQRZG1_init self2 = Inr m" "model_sweet_rule mdl2 = model_sweet_rule m" by blast
  have 1: "map fst (model_sweet_rule mdl1) =
           filter (gate_open (self_cutactive self1))
             (List.product [0..<length (self_y self1)] [0..<length (self_y self1)])"
    "Skip \<notin> snd ` set (model_sweet_rule mdl1)"
    unfolding g CQRZG1_init_sweet [OF assms(1)] by (auto simp: o_def)
  have 2: "map fst (model_sweet_rule mdl2) =
           filter (gate_open (self_cutactive self2))
             (List.product [0..<length (self_y self2)] [0..<length (self_y self2)])"
    "Skip \<notin> snd ` set (model_sweet_rule mdl2)"
    unfolding g m(2) CQRZG1_init_sweet [OF m(1)] by (auto simp: o_def)
  have 3: "map fst (the (model_sweet_rule2 mdl2)) =
           filter (gate_open (self_active self2))
             (List.product [0..<length (self_y self2)] [0..<length (self_y self2)])"
    "Skip \<notin> snd ` set (the (model_sweet_rule2 mdl2))"
    "model_sweet_rule2 mdl2 \<noteq> None"
    unfolding g CQRZG2_init_sweet2 [OF assms(2)] by (auto simp: o_def)
  from 1 2 3 show ?thesis by simp
qed

theorem sweet_spot_gating_witness:
  "bindE (CQRZG1_init example1) (\<lambda>m. Inr (map fst (model_sweet_rule m))) = Inr [(0, 1), (1, 0)] \<and>
   bindE (CQRZG2_init example2) (\<lambda>m. Inr (map fst (model_sweet_rule m))) = Inr [] \<and>
   bindE (CQRZG2_init example2) (\<lambda>m. Inr (map fst (the (model_sweet_rule2 m)))) = Inr [(1, 0)]"
proof -
  obtain m1 where h1: "CQRZG1_init example1 = Inr m1"
    by (simp add: example1_def CQRZG1_init_def rule_defs run_defs)
  obtain m2 where h2: "CQRZG2_init example2 = Inr m2"
    by (simp add: example2_def CQRZG2_init_def rule_defs run_defs)
  from sweet_spot_gating [OF h1 h2]
  have "map fst (model_sweet_rule m1) = [(0, 1), (1, 0)]"
    and "map fst (model_sweet_rule m2) = []"
    and "map fst (the (model_sweet_rule2 m2)) = [(1, 0)]"
    by (simp_all add: example1_def example2_def gate_open_def upt_rec)
  with h1 h2 show ?thesis by simp
qed

text \<open>
  C4. For any data and any error composition and returns to scale: the operator is
  \<open>\<le>\<close> for the production frontier and \<open>\<ge>\<close> for the cost frontier. When the
  constructor returns a model for the production frontier, every elementary Afriat
  constraint and every sweet-spot constraint of phase 1 and phase 2 of that model is
  a \<open>\<le>\<close> constraint between the predictors; the constructor then returns a model for
  the cost frontier as well, whose Afriat and sweet-spot constraints are the
  \<open>\<ge>\<close> constraints between the same two operands, at the same indices, and whose
  regression and log-linearisation constraints, objective and variables are those of
  the production model. The rules and the models (or errors) of the cost frontier
  are those of the production frontier with \<open>\<ge>\<close> in place of \<open>\<le>\<close>, and conversely;
  the regression rule, the log-linearisation rule and the objectives do not depend
  on the frontier type.
\<close>

theorem frontier_switch:
  "(CQRZG2_init (self2\<lparr>self_fun := FUN_PROD\<rparr>) = Inr mp2 \<longrightarrow>
      model_I mp2 = [0..<length (self_y self2)] \<and>
      model_J mp2 = [0..<length (self_x self2 ! 0)] \<and>
      model_afriat_rule mp2 =
        map (\<lambda>i. (i, Rel LE
               (spec_predictor (self_rts self2) (self_x self2) (model_J mp2) i i)
               (spec_predictor (self_rts self2) (self_x self2) (model_J mp2)
                  (Suc i mod length (self_y self2)) i)))
          [0..<length (self_y self2)] \<and>
      model_sweet_rule mp2 =
        map (\<lambda>ih. (ih, Rel LE
               (spec_predictor (self_rts self2) (self_x self2) (model_J mp2) (fst ih) (fst ih))
               (spec_predictor (self_rts self2) (self_x self2) (model_J mp2) (snd ih) (fst ih))))
          (filter (gate_open (self_cutactive self2))
             (List.product [0..<length (self_y self2)] [0..<length (self_y self2)])) \<and>
      model_sweet_rule2 mp2 = Some
        (map (\<lambda>ih. (ih, Rel LE
               (spec_predictor (sweet_rule2_rts (self_cet self2) (self_rts self2))
                  (self_x self2) (model_J mp2) (fst ih) (fst ih))
               (spec_predictor (sweet_rule2_rts (self_cet self2) (self_rts self2))
                  (self_x self2) (model_J mp2) (snd ih) (fst ih))))
          (filter (gate_open (self_active self2))
             (List.product [0..<length (self_y self2)] [0..<length (self_y self2)]))) \<and>
      CQRZG2_init (self2\<lparr>self_fun := FUN_COST\<rparr>) = Inr (set_model_op GE mp2) \<and>
      model_afriat_rule (set_model_op GE mp2) =
        map (\<lambda>i. (i, Rel GE
               (spec_predictor (self_rts self2) (self_x self2) (model_J mp2) i i)
               (spec_predictor (self_rts self2) (self_x self2) (model_J mp2)
                  (Suc i mod length (self_y self2)) i)))
          [0..<length (self_y self2)] \<and>
      model_sweet_rule (set_model_op GE mp2) =
        map (\<lambda>ih. (ih, Rel GE
               (spec_predictor (self_rts self2) (self_x self2) (model_J mp2) (fst ih) (fst ih))
               (spec_predictor (self_rts self2) (self_x self2) (model_J mp2) (snd ih) (fst ih))))
          (filter (gate_open (self_cutactive self2))
             (List.product [0..<length (self_y self2)] [0..<length (self_y self2)])) \<and>
      model_sweet_rule2 (set_model_op GE mp2) = Some
        (map (\<lambda>ih. (ih, Rel GE
               (spec_predictor (sweet_rule2_rts (self_cet self2) (self_rts self2))
                  (self_x self2) (model_J mp2) (fst ih) (fst ih))
               (spec_predictor (sweet_rule2_rts (self_cet self2) (self_rts self2))
                  (self_x self2) (model_J mp2) (snd ih) (fst ih))))
          (filter (gate_open (self_active self2))
             (List.product [0..<length (self_y self2)] [0..<length (self_y self2)]))) \<and>
      model_regression_rule (set_model_op GE mp2) = model_regression_rule mp2 \<and>
      model_log_rule (set_model_op GE mp2) = model_log_rule mp2 \<and>
      model_objective (set_model_op GE mp2) = model_objective mp2 \<and>
      model_vars (set_model_op GE mp2) = model_vars mp2) \<and>
   (CQRZG1_init (self\<lparr>self_fun := FUN_PROD\<rparr>) = Inr mp1 \<longrightarrow>
      model_I mp1 = [0..<length (self_y self)] \<and>
      model_J mp1 = [0..<length (self_x self ! 0)] \<and>
      model_afriat_rule mp1 =
        map (\<lambda>i. (i, Rel LE
               (spec_predictor (self_rts self) (self_x self) (model_J mp1) i i)
               (spec_predictor (self_rts self) (self_x self) (model_J mp1)
                  (Suc i mod length (self_y self)) i)))
          [0..<length (self_y self)] \<and>
      model_sweet_rule mp1 =
        map (\<lambda>ih. (ih, Rel LE
               (spec_predictor (self_rts self) (self_x self) (model_J mp1) (fst ih) (fst ih))
               (spec_predictor (self_rts self) (self_x self) (model_J mp1) (snd ih) (fst ih))))
          (filter (gate_open (self_cutactive self))
             (List.product [0..<length (self_y self)] [0..<length (self_y self)])) \<and>
      CQRZG1_init (self\<lparr>self_fun := FUN_COST\<rparr>) = Inr (set_model_op GE mp1) \<and>
      model_afriat_rule (set_model_op GE mp1) =
        map (\<lambda>i. (i, Rel GE
               (spec_predictor (self_rts self) (self_x self) (model_J mp1) i i)
               (spec_predictor (self_rts self) (self_x self) (model_J mp1)
                  (Suc i mod length (self_y self)) i)))
          [0..<length (self_y self)] \<and>
      model_sweet_rule (set_model_op GE mp1) =
        map (\<lambda>ih. (ih, Rel GE
               (spec_predictor (self_rts self) (self_x self) (model_J mp1) (fst ih) (fst ih))
               (spec_predictor (self_rts self) (self_x self) (model_J mp1) (snd ih) (fst ih))))
          (filter (gate_open (self_cutactive self))
             (List.product [0..<length (self_y self)] [0..<length (self_y self)])) \<and>
      model_regression_rule (set_model_op GE mp1) = model_regression_rule mp1 \<and>
      model_log_rule (set_model_op GE mp1) = model_log_rule mp1 \<and>
      model_objective (set_model_op GE mp1) = model_objective mp1 \<and>
      model_vars (set_model_op GE mp1) = model_vars mp1) \<and>
   operator_of FUN_PROD = Some LE \<and>
   operator_of FUN_COST = Some GE \<and>
   afriat_rule (self\<lparr>self_fun := FUN_COST\<rparr>) =
     map_rule1 (set_op GE) (afriat_rule (self\<lparr>self_fun := FUN_PROD\<rparr>)) \<and>
   afriat_rule (self\<lparr>self_fun := FUN_PROD\<rparr>) =
     map_rule1 (set_op LE) (afriat_rule (self\<lparr>self_fun := FUN_COST\<rparr>)) \<and>
   sweet_rule (self\<lparr>self_fun := FUN_COST\<rparr>) =
     map_rule2 (set_op GE) (sweet_rule (self\<lparr>self_fun := FUN_PROD\<rparr>)) \<and>
   sweet_rule (self\<lparr>self_fun := FUN_PROD\<rparr>) =
     map_rule2 (set_op LE) (sweet_rule (self\<lparr>self_fun := FUN_COST\<rparr>)) \<and>
   sweet_rule2 (self2\<lparr>self_fun := FUN_COST\<rparr>) =
     map_rule2 (set_op GE) (sweet_rule2 (self2\<lparr>self_fun := FUN_PROD\<rparr>)) \<and>
   sweet_rule2 (self2\<lparr>self_fun := FUN_PROD\<rparr>) =
     map_rule2 (set_op LE) (sweet_rule2 (self2\<lparr>self_fun := FUN_COST\<rparr>)) \<and>
   regression_rule (self\<lparr>self_fun := FUN_COST\<rparr>) = regression_rule (self\<lparr>self_fun := FUN_PROD\<rparr>) \<and>
   log_rule (self\<lparr>self_fun := FUN_COST\<rparr>) = log_rule (self\<lparr>self_fun := FUN_PROD\<rparr>) \<and>
   objective_rule (self\<lparr>self_fun := FUN_COST\<rparr>) = objective_rule (self\<lparr>self_fun := FUN_PROD\<rparr>) \<and>
   squared_objective_rule (self\<lparr>self_fun := FUN_COST\<rparr>) =
     squared_objective_rule (self\<lparr>self_fun := FUN_PROD\<rparr>) \<and>
   CQRZG1_init (self\<lparr>self_fun := FUN_COST\<rparr>) =
     map_sum id (set_model_op GE) (CQRZG1_init (self\<lparr>self_fun := FUN_PROD\<rparr>)) \<and>
   CQRZG1_init (self\<lparr>self_fun := FUN_PROD\<rparr>) =
     map_sum id (set_model_op LE) (CQRZG1_init (self\<lparr>self_fun := FUN_COST\<rparr>)) \<and>
   CERZG1_init (self\<lparr>self_fun := FUN_COST\<rparr>) =
     map_sum id (set_model_op GE) (CERZG1_init (self\<lparr>self_fun := FUN_PROD\<rparr>)) \<and>
   CQRZG2_init (self2\<lparr>self_fun := FUN_COST\<rparr>) =
     map_sum id (set_model_op GE) (CQRZG2_init (self2\<lparr>self_fun := FUN_PROD\<rparr>)) \<and>
   CQRZG2_init (self2\<lparr>self_fun := FUN_PROD\<rparr>) =
     map_sum id (set_model_op LE) (CQRZG2_init (self2\<lparr>self_fun := FUN_COST\<rparr>)) \<and>
   CERZG2_init (self2\<lparr>self_fun := FUN_COST\<rparr>) =
     map_sum id (set_model_op GE) (CERZG2_init (self2\<lparr>self_fun := FUN_PROD\<rparr>))"
proof -
  have 1: "CQRZG2_init (self2\<lparr>self_fun := FUN_PROD\<rparr>) = Inr mp2 \<longrightarrow>
      model_I mp2 = [0..<length (self_y self2)] \<and>
      model_J mp2 = [0..<length (self_x self2 ! 0)] \<and>
      model_afriat_rule mp2 =
        map (\<lambda>i. (i, Rel LE
               (spec_predictor (self_rts self2) (self_x self2) (model_J mp2) i i)
               (spec_predictor (self_rts self2) (self_x self2) (model_J mp2)
                  (Suc i mod length (self_y self2)) i)))
          [0..<length (self_y self2)] \<and>
      model_sweet_rule mp2 =
        map (\<lambda>ih. (ih, Rel LE
               (spec_predictor (self_rts self2) (self_x self2) (model_J mp2) (fst ih) (fst ih))
               (spec_predictor (self_rts self2) (self_x self2) (model_J mp2) (snd ih) (fst ih))))
          (filter (gate_open (self_cutactive self2))
             (List.product [0..<length (self_y self2)] [0..<length (self_y self2)])) \<and>
      model_sweet_rule2 mp2 = Some
        (map (\<lambda>ih. (ih, Rel LE
               (spec_predictor (sweet_rule2_rts (self_cet self2) (self_rts self2))
                  (self_x self2) (model_J mp2) (fst ih) (fst ih))
               (spec_predictor (sweet_rule2_rts (self_cet self2) (self_rts self2))
                  (self_x self2) (model_J mp2) (snd ih) (fst ih))))
          (filter (gate_open (self_active self2))
             (List.product [0..<length (self_y self2)] [0..<length (self_y self2)]))) \<and>
      CQRZG2_init (self2\<lparr>self_fun := FUN_COST\<rparr>) = Inr (set_model_op GE mp2) \<and>
      model_afriat_rule (set_model_op GE mp2) =
        map (\<lambda>i. (i, Rel GE
               (spec_predictor (self_rts self2) (self_x self2) (model_J mp2) i i)
               (spec_predictor (self_rts self2) (self_x self2) (model_J mp2)
                  (Suc i mod length (self_y self2)) i)))
          [0..<length (self_y self2)] \<and>
      model_sweet_rule (set_model_op GE mp2) =
        map (\<lambda>ih. (ih, Rel GE
               (spec_predictor (self_rts self2) (self_x self2) (model_J mp2) (fst ih) (fst ih))
               (spec_predictor (self_rts self2) (self_x self2) (model_J mp2) (snd ih) (fst ih))))
          (filter (gate_open (self_cutactive self2))
             (List.product [0..<length (self_y self2)] [0..<length (self_y self2)])) \<and>
      model_sweet_rule2 (set_model_op GE mp2) = Some
        (map (\<lambda>ih. (ih, Rel GE
               (spec_predictor (sweet_rule2_rts (self_cet self2) (self_rts self2))
                  (self_x self2) (model_J mp2) (fst ih) (fst ih))
               (spec_predictor (sweet_rule2_rts (self_cet self2) (self_rts self2))
                  (self_x self2) (model_J mp2) (snd ih) (fst ih))))
          (filter (gate_open (self_active self2))
             (List.product [0..<length (self_y self2)] [0..<length (self_y self2)]))) \<and>
      model_regression_rule (set_model_op GE mp2) = model_regression_rule mp2 \<and>
      model_log_rule (set_model_op GE mp2) = model_log_rule mp2 \<and>
      model_objective (set_model_op GE mp2) = model_objective mp2 \<and>
      model_vars (set_model_op GE mp2) = model_vars mp2"
    by (rule impI) (rule frontier_switch_G2)
  have 2: "CQRZG1_init (self\<lparr>self_fun := FUN_PROD\<rparr>) = Inr mp1 \<longrightarrow>
      model_I mp1 = [0..<length (self_y self)] \<and>
      model_J mp1 = [0..<length (self_x self ! 0)] \<and>
      model_afriat_rule mp1 =
        map (\<lambda>i. (i, Rel LE
               (spec_predictor (self_rts self) (self_x self) (model_J mp1) i i)
               (spec_predictor (self_rts self) (self_x self) (model_J mp1)
                  (Suc i mod length (self_y self)) i)))
          [0..<length (self_y self)] \<and>
      model_sweet_rule mp1 =
        map (\<lambda>ih. (ih, Rel LE
               (spec_predictor (self_rts self) (self_x self) (model_J mp1) (fst ih) (fst ih))
               (spec_predictor (self_rts self) (self_x self) (model_J mp1) (snd ih) (fst ih))))
          (filter (gate_open (self_cutactive self))
             (List.product [0..<length (self_y self)] [0..<length (self_y self)])) \<and>
      CQRZG1_init (self\<lparr>self_fun := FUN_COST\<rparr>) = Inr (set_model_op GE mp1) \<and>
      model_afriat_rule (set_model_op GE mp1) =
        map (\<lambda>i. (i, Rel GE
               (spec_predictor (self_rts self) (self_x self) (model_J mp1) i i)
               (spec_predictor (self_rts self) (self_x self) (model_J mp1)
                  (Suc i mod length (self_y self)) i)))
          [0..<length (self_y self)] \<and>
      model_sweet_rule (set_model_op GE mp1) =
        map (\<lambda>ih. (ih, Rel GE
               (spec_predictor (self_rts self) (self_x self) (model_J mp1) (fst ih) (fst ih))
               (spec_predictor (self_rts self) (self_x self) (model_J mp1) (snd ih) (fst ih))))
          (filter (gate_open (self_cutactive self))
             (List.product [0..<length (self_y self)] [0..<length (self_y self)])) \<and>
      model_regression_rule (set_model_op GE mp1) = model_regression_rule mp1 \<and>
      model_log_rule (set_model_op GE mp1) = model_log_rule mp1 \<and>
      model_objective (set_model_op GE mp1) = model_objective mp1 \<and>
      model_vars (set_model_op GE mp1) = model_vars mp1"
    by (rule impI) (rule frontier_switch_G1)
  from 1 2 operator_of_values frontier_switch_relative [of self self2]
  show ?thesis by blast
qed

theorem frontier_switch_witness:
  "map_sum id model_afriat_rule (CQRZG2_init (example_switch\<lparr>self_fun := FUN_PROD\<rparr>)) =
     Inr [(0, Rel LE (Add (V (alpha 0)) (Add (Num 0) (Mul (V (beta 0 0)) (Num 1))))
                     (Add (V (alpha 1)) (Add (Num 0) (Mul (V (beta 1 0)) (Num 1))))),
          (1, Rel LE (Add (V (alpha 1)) (Add (Num 0) (Mul (V (beta 1 0)) (Num 2))))
                     (Add (V (alpha 0)) (Add (Num 0) (Mul (V (beta 0 0)) (Num 2)))))] \<and>
   map_sum id model_afriat_rule (CQRZG2_init (example_switch\<lparr>self_fun := FUN_COST\<rparr>)) =
     Inr [(0, Rel GE (Add (V (alpha 0)) (Add (Num 0) (Mul (V (beta 0 0)) (Num 1))))
                     (Add (V (alpha 1)) (Add (Num 0) (Mul (V (beta 1 0)) (Num 1))))),
          (1, Rel GE (Add (V (alpha 1)) (Add (Num 0) (Mul (V (beta 1 0)) (Num 2))))
                     (Add (V (alpha 0)) (Add (Num 0) (Mul (V (beta 0 0)) (Num 2)))))] \<and>
   map_sum id model_sweet_rule (CQRZG2_init (example_switch\<lparr>self_fun := FUN_PROD\<rparr>)) =
     Inr [((0, 1), Rel LE (Add (V (alpha 0)) (Add (Num 0) (Mul (V (beta 0 0)) (Num 1))))
                          (Add (V (alpha 1)) (Add (Num 0) (Mul (V (beta 1 0)) (Num 1)))))] \<and>
   map_sum id model_sweet_rule (CQRZG2_init (example_switch\<lparr>self_fun := FUN_COST\<rparr>)) =
     Inr [((0, 1), Rel GE (Add (V (alpha 0)) (Add (Num 0) (Mul (V (beta 0 0)) (Num 1))))
                          (Add (V (alpha 1)) (Add (Num 0) (Mul (V (beta 1 0)) (Num 1)))))] \<and>
   map_sum id model_sweet_rule2 (CQRZG2_init (example_switch\<lparr>self_fun := FUN_PROD\<rparr>)) =
     Inr (Some [((1, 0), Rel LE (Add (V (alpha 1)) (Add (Num 0) (Mul (V (beta 1 0)) (Num 2))))
                                (Add (V (alpha 0)) (Add (Num 0) (Mul (V (beta 0 0)) (Num 2)))))]) \<and>
   map_sum id model_sweet_rule2 (CQRZG2_init (example_switch\<lparr>self_fun := FUN_COST\<rparr>)) =
     Inr (Some [((1, 0), Rel GE (Add (V (alpha 1)) (Add (Num 0) (Mul (V (beta 1 0)) (Num 2))))
                                (Add (V (alpha 0)) (Add (Num 0) (Mul (V (beta 0 0)) (Num 2)))))]) \<and>
   map_sum id model_sweet_rule (CQRZG1_init (example1\<lparr>self_fun := FUN_PROD\<rparr>)) =
     Inr [((0, 1), Rel LE (Add (V (alpha 0)) (Add (Num 0) (Mul (V (beta 0 0)) (Num 1))))
                          (Add (V (alpha 1)) (Add (Num 0) (Mul (V (beta 1 0)) (Num 1))))),
          ((1, 0), Rel LE (Add (V (alpha 1)) (Add (Num 0) (Mul (V (beta 1 0)) (Num 2))))
                          (Add (V (alpha 0)) (Add (Num 0) (Mul (V (beta 0 0)) (Num 2)))))] \<and>
   map_sum id model_sweet_rule (CQRZG1_init (example1\<lparr>self_fun := FUN_COST\<rparr>)) =
     Inr [((0, 1), Rel GE (Add (V (alpha 0)) (Add (Num 0) (Mul (V (beta 0 0)) (Num 1))))
                          (Add (V (alpha 1)) (Add (Num 0) (Mul (V (beta 1 0)) (Num 1))))),
          ((1, 0), Rel GE (Add (V (alpha 1)) (Add (Num 0) (Mul (V (beta 1 0)) (Num 2))))
                          (Add (V (alpha 0)) (Add (Num 0) (Mul (V (beta 0 0)) (Num 2)))))]"
proof -
  obtain m1 where h1: "CQRZG1_init (example1\<lparr>self_fun := FUN_PROD\<rparr>) = Inr m1"
    by (simp add: example1_def CQRZG1_init_def rule_defs run_defs)
  obtain m2 where h2: "CQRZG2_init (example_switch\<lparr>self_fun := FUN_PROD\<rparr>) = Inr m2"
    by (simp add: example_switch_def CQRZG2_init_def rule_defs run_defs)
  note t = frontier_switch [of example_switch m2 example1 m1]
  note g2 = t [THEN conjunct1, THEN mp, OF h2]
  note g1 = t [THEN conjunct2, THEN conjunct1, THEN mp, OF h1]
  from g2 h2 have
    "map_sum id model_afriat_rule (CQRZG2_init (example_switch\<lparr>self_fun := FUN_PROD\<rparr>)) =
     Inr [(0, Rel LE (Add (V (alpha 0)) (Add (Num 0) (Mul (V (beta 0 0)) (Num 1))))
                     (Add (V (alpha 1)) (Add (Num 0) (Mul (V (beta 1 0)) (Num 1))))),
          (1, Rel LE (Add (V (alpha 1)) (Add (Num 0) (Mul (V (beta 1 0)) (Num 2))))
                     (Add (V (alpha 0)) (Add (Num 0) (Mul (V (beta 0 0)) (Num 2)))))]"
    and
    "map_sum id model_afriat_rule (CQRZG2_init (example_switch\<lparr>self_fun := FUN_COST\<rparr>)) =
     Inr [(0, Rel GE (Add (V (alpha 0)) (Add (Num 0) (Mul (V (beta 0 0)) (Num 1))))
                     (Add (V (alpha 1)) (Add (Num 0) (Mul (V (beta 1 0)) (Num 1))))),
          (1, Rel GE (Add (V (alpha 1)) (Add (Num 0) (Mul (V (beta 1 0)) (Num 2))))
                     (Add (V (alpha 0)) (Add (Num 0) (Mul (V (beta 0 0)) (Num 2)))))]"
    and
    "map_sum id model_sweet_rule (CQRZG2_init (example_switch\<lparr>self_fun := FUN_PROD\<rparr>)) =
     Inr [((0, 1), Rel LE (Add (V (alpha 0)) (Add (Num 0) (Mul (V (beta 0 0)) (Num 1))))
                          (Add (V (alpha 1)) (Add (Num 0) (Mul (V (beta 1 0)) (Num 1)))))]"
    and
    "map_sum id model_sweet_rule (CQRZG2_init (example_switch\<lparr>self_fun := FUN_COST\<rparr>)) =
     Inr [((0, 1), Rel GE (Add (V (alpha 0)) (Add (Num 0) (Mul (V (beta 0 0)) (Num 1))))
                          (Add (V (alpha 1)) (Add (Num 0) (Mul (V (beta 1 0)) (Num 1)))))]"
    and
    "map_sum id model_sweet_rule2 (CQRZG2_init (example_switch\<lparr>self_fun := FUN_PROD\<rparr>)) =
     Inr (Some [((1, 0), Rel LE (Add (V (alpha 1)) (Add (Num 0) (Mul (V (beta 1 0)) (Num 2))))
                                (Add (V (alpha 0)) (Add (Num 0) (Mul (V (beta 0 0)) (Num 2)))))])"
    and
    "map_sum id model_sweet_rule2 (CQRZG2_init (example_switch\<lparr>self_fun := FUN_COST\<rparr>)) =
     Inr (Some [((1, 0), Rel GE (Add (V (alpha 1)) (Add (Num 0) (Mul (V (beta 1 0)) (Num 2))))
                                (Add (V (alpha 0)) (Add (Num 0) (Mul (V (beta 0 0)) (Num 2)))))])"
    by (simp_all add: example_switch_def spec_defs gate_open_def sweet_rule2_rts_def)
  moreover from g1 h1 have
    "map_sum id model_sweet_rule (CQRZG1_init (example1\<lparr>self_fun := FUN_PROD\<rparr>)) =
     Inr [((0, 1), Rel LE (Add (V (alpha 0)) (Add (Num 0) (Mul (V (beta 0 0)) (Num 1))))
                          (Add (V (alpha 1)) (Add (Num 0) (Mul (V (beta 1 0)) (Num 1))))),
          ((1, 0), Rel LE (Add (V (alpha 1)) (Add (Num 0) (Mul (V (beta 1 0)) (Num 2))))
                          (Add (V (alpha 0)) (Add (Num 0) (Mul (V (beta 0 0)) (Num 2)))))]"
    and
    "map_sum id model_sweet_rule (CQRZG1_init (example1\<lparr>self_fun := FUN_COST\<rparr>)) =
     Inr [((0, 1), Rel GE (Add (V (alpha 0)) (Add (Num 0) (Mul (V (beta 0 0)) (Num 1))))
                          (Add (V (alpha 1)) (Add (Num 0) (Mul (V (beta 1 0)) (Num 1))))),
          ((1, 0), Rel GE (Add (V (alpha 1)) (Add (Num 0) (Mul (V (beta 1 0)) (Num 2))))
                          (Add (V (alpha 0)) (Add (Num 0) (Mul (V (beta 0 0)) (Num 2)))))]"
    by (simp_all add: example1_def spec_defs gate_open_def)
  ultimately show ?thesis by (simp only: simp_thms)
qed

text \<open>
  C5. The elementary Afriat component of a constructed model has exactly one
  constraint per observation \<open>i\<close>, in index order. Its left side is the predictor of
  the coefficients of \<open>i\<close> at the inputs \<open>x[i]\<close>, its right side the predictor of the
  coefficients of the next observation (\<open>i + 1\<close>, and \<open>0\<close> after the last one) at the
  same \<open>x[i]\<close>; the relation is \<open>\<le>\<close> for a production frontier and \<open>\<ge>\<close> for a cost
  frontier, and a model with an observation has one of these two frontier types.
\<close>

theorem afriat_per_observation:
  assumes "CQRZG1_init self = Inr mdl"
  shows "(self_y self = [] \<or> self_fun self = FUN_PROD \<or> self_fun self = FUN_COST) \<and>
         (self_rts self = RTS_VRS1 \<or> self_rts self = RTS_CRS) \<and>
         model_I mdl = [0..<length (self_y self)] \<and>
         model_J mdl = [0..<length (self_x self ! 0)] \<and>
         model_afriat_rule mdl =
           map (\<lambda>i. (i, Rel (if self_fun self = FUN_PROD then LE else GE)
                  (spec_predictor (self_rts self) (self_x self) (model_J mdl) i i)
                  (spec_predictor (self_rts self) (self_x self) (model_J mdl)
                     (Suc i mod length (self_y self)) i)))
             [0..<length (self_y self)]"
proof -
  from CQRZG1_init_Inr_D [OF assms] have "model_I mdl = [0..<length (self_y self)]"
    and "model_J mdl = [0..<length (self_x self ! 0)]"
    by auto
  with CQRZG1_init_afriat [OF assms] CQRZG1_init_fun [OF assms] CQRZG1_init_config [OF assms]
  show ?thesis by blast
qed

theorem afriat_per_observation_witness:
  "bindE (CQRZG1_init example1) (\<lambda>m. Inr (model_afriat_rule m)) =
     Inr [(0, Rel LE (Add (V (alpha 0)) (Add (Num 0) (Mul (V (beta 0 0)) (Num 1))))
                     (Add (V (alpha 1)) (Add (Num 0) (Mul (V (beta 1 0)) (Num 1))))),
          (1, Rel LE (Add (V (alpha 1)) (Add (Num 0) (Mul (V (beta 1 0)) (Num 2))))
                     (Add (V (alpha 0)) (Add (Num 0) (Mul (V (beta 0 0)) (Num 2)))))]"
proof -
  obtain m where h: "CQRZG1_init example1 = Inr m"
    by (simp add: example1_def CQRZG1_init_def rule_defs run_defs)
  from afriat_per_observation [OF h]
  have "model_afriat_rule m =
     [(0, Rel LE (Add (V (alpha 0)) (Add (Num 0) (Mul (V (beta 0 0)) (Num 1))))
                     (Add (V (alpha 1)) (Add (Num 0) (Mul (V (beta 1 0)) (Num 1))))),
          (1, Rel LE (Add (V (alpha 1)) (Add (Num 0) (Mul (V (beta 1 0)) (Num 2))))
                     (Add (V (alpha 0)) (Add (Num 0) (Mul (V (beta 0 0)) (Num 2)))))]"
    by (simp add: example1_def spec_defs)
  with h show ?thesis by simp
qed

text \<open>
  C6. A constructed model with the multiplicative error term, under either returns to
  scale, has exactly one log-linearisation constraint per observation,
  \<open>frontier[i] == alpha[i] + \<Sum>\<^sub>j beta[i,j]\<cdot>x[i][j] - 1\<close> under variable and
  \<open>frontier[i] == \<Sum>\<^sub>j beta[i,j]\<cdot>x[i][j] - 1\<close> under constant returns to scale, and each of
  its regression constraints relates \<open>log(y[i])\<close> to \<open>log(frontier[i] + 1)\<close>; so does the
  multiplicative regression rule of \<^verbatim>\<open>CNLSG1\<close>. A model with the additive error term
  has no log-linearisation component.
\<close>

theorem multiplicative_log_linearisation:
  assumes "CQRZG1_init self = Inr mdl"
  shows "(self_cet self = CET_MULT \<longrightarrow>
            (self_rts self = RTS_VRS1 \<or> self_rts self = RTS_CRS) \<and>
            model_log_rule mdl = Some
              (map (\<lambda>i. (i, Rel EQ (V (frontier i))
                     (Sub (spec_predictor (self_rts self) (self_x self) (model_J mdl) i i) (Num 1))))
                [0..<length (self_y self)]) \<and>
            length (the (model_log_rule mdl)) = length (self_y self) \<and>
            model_regression_rule mdl =
              map (\<lambda>i. (i, Rel EQ (Log (Num (self_y self ! i)))
                     (Add (Sub (Sub (Log (Add (V (frontier i)) (Num 1)))
                                    (spec_lamda_z (the (self_z self)) (model_K mdl) i))
                               (V (epsilon_minus i)))
                          (V (epsilon_plus i)))))
                [0..<length (self_y self)]) \<and>
         (self_cet self = CET_ADDI \<longrightarrow> model_log_rule mdl = None) \<and>
         (cnls_cet cself = CET_MULT \<and> i < length (cnls_y cself) \<and> 0 < cnls_y cself ! i \<longrightarrow>
            bindE (CNLSG1_regression_rule cself) (\<lambda>r. r m i) =
              Inr (Rel EQ (Log (Num (cnls_y cself ! i)))
                     (Sub (Log (Add (V (frontier i)) (Num 1))) (V (epsilon i)))))"
proof -
  have a: "self_cet self = CET_MULT \<Longrightarrow>
            model_log_rule mdl = Some
              (map (\<lambda>i. (i, Rel EQ (V (frontier i))
                     (Sub (spec_predictor (self_rts self) (self_x self) (model_J mdl) i i) (Num 1))))
                [0..<length (self_y self)])"
    by (rule CQRZG1_init_log [OF assms])
  have b: "self_cet self = CET_MULT \<Longrightarrow> length (the (model_log_rule mdl)) = length (self_y self)"
    by (simp add: CQRZG1_init_log [OF assms])
  have c: "self_cet self = CET_ADDI \<Longrightarrow> model_log_rule mdl = None"
    by (rule CQRZG1_init_log_none [OF assms]) simp
  from a b c CQRZG1_init_regression_mult [OF assms] CQRZG1_init_config [OF assms]
    CNLSG1_regression_rule_mult [of cself i m]
  show ?thesis by blast
qed

theorem multiplicative_log_linearisation_witness:
  "bindE (CQRZG1_init example3) (\<lambda>m. Inr (model_log_rule m)) =
     Inr (Some [(0, Rel EQ (V (frontier 0))
                     (Sub (Add (V (alpha 0)) (Add (Num 0) (Mul (V (beta 0 0)) (Num 1)))) (Num 1))),
                (1, Rel EQ (V (frontier 1))
                     (Sub (Add (V (alpha 1)) (Add (Num 0) (Mul (V (beta 1 0)) (Num 2)))) (Num 1)))]) \<and>
   bindE (CQRZG1_init example3) (\<lambda>m. Inr (model_regression_rule m)) =
     Inr [(0, Rel EQ (Log (Num 1))
                (Add (Sub (Sub (Log (Add (V (frontier 0)) (Num 1)))
                               (Add (Num 0) (Mul (V (lamda 0)) (Num 3))))
                          (V (epsilon_minus 0)))
                     (V (epsilon_plus 0)))),
          (1, Rel EQ (Log (Num 2))
                (Add (Sub (Sub (Log (Add (V (frontier 1)) (Num 1)))
                               (Add (Num 0) (Mul (V (lamda 0)) (Num 4))))
                          (V (epsilon_minus 1)))
                     (V (epsilon_plus 1))))] \<and>
   bindE (CQRZG1_init example1) (\<lambda>m. Inr (model_log_rule m)) = Inr None \<and>
   bindE (CNLSG1_regression_rule example_cnls)
       (\<lambda>r. r \<lparr>model_I = [0, 1], model_J = [0], model_K = []\<rparr> 1) =
     Inr (Rel EQ (Log (Num 2)) (Sub (Log (Add (V (frontier 1)) (Num 1))) (V (epsilon 1))))"
proof -
  obtain m3 where h3: "CQRZG1_init example3 = Inr m3"
    by (simp add: example3_def CQRZG1_init_def rule_defs run_defs)
  obtain m1 where h1: "CQRZG1_init example1 = Inr m1"
    by (simp add: example1_def CQRZG1_init_def rule_defs run_defs)
  from CQRZG1_init_Inr_D [OF h3] have sets: "model_J m3 = [0]" "model_K m3 = [0]"
    by (auto simp: example3_def upt_rec)
  from multiplicative_log_linearisation
         [OF h3, of example_cnls 1 "\<lparr>model_I = [0, 1], model_J = [0], model_K = []\<rparr>"] sets
  have "model_log_rule m3 =
     Some [(0, Rel EQ (V (frontier 0))
                     (Sub (Add (V (alpha 0)) (Add (Num 0) (Mul (V (beta 0 0)) (Num 1)))) (Num 1))),
                (1, Rel EQ (V (frontier 1))
                     (Sub (Add (V (alpha 1)) (Add (Num 0) (Mul (V (beta 1 0)) (Num 2)))) (Num 1)))]"
    and "model_regression_rule m3 =
     [(0, Rel EQ (Log (Num 1))
                (Add (Sub (Sub (Log (Add (V (frontier 0)) (Num 1)))
                               (Add (Num 0) (Mul (V (lamda 0)) (Num 3))))
                          (V (epsilon_minus 0)))
                     (V (epsilon_plus 0)))),
          (1, Rel EQ (Log (Num 2))
                (Add (Sub (Sub (Log (Add (V (frontier 1)) (Num 1)))
                               (Add (Num 0) (Mul (V (lamda 0)) (Num 4))))
                          (V (epsilon_minus 1)))
                     (V (epsilon_plus 1))))]"
    and "bindE (CNLSG1_regression_rule example_cnls)
       (\<lambda>r. r \<lparr>model_I = [0, 1], model_J = [0], model_K = []\<rparr> 1) =
     Inr (Rel EQ (Log (Num 2)) (Sub (Log (Add (V (frontier 1)) (Num 1))) (V (epsilon 1))))"
    by (simp_all add: example3_def example_cnls_def spec_defs)
  moreover from multiplicative_log_linearisation
         [OF h1, of example_cnls 1 "\<lparr>model_I = [0, 1], model_J = [0], model_K = []\<rparr>"]
  have "model_log_rule m1 = None" by (simp add: example1_def)
  ultimately show ?thesis using h1 h3 by simp
qed


text \<open>
  C8. The objective of a constructed quantile model (\<^verbatim>\<open>CQRZG1\<close>, \<^verbatim>\<open>CQRZG2\<close>) is
  active, no squared objective exists, and its value is
  \<open>(1 - tau)\<cdot>\<Sum>\<^sub>i epsilon_plus[i] + tau\<cdot>\<Sum>\<^sub>i epsilon_minus[i]\<close> over the observations; at
  \<open>tau = 1/2\<close> both weights are \<open>1/2\<close>. The expression is linear; with at least one
  observation the squared form is not, so the objective is not the squared form.
\<close>

theorem quantile_objective:
  assumes "CQRZG1_init self1 = Inr mdl1" and "CQRZG2_init self2 = Inr mdl2"
  shows "model_objective mdl1 = \<lparr>obj_expr = objective_rule self1 mdl1, obj_active = True\<rparr> \<and>
         model_squared_objective mdl1 = None \<and>
         model_objective mdl2 = \<lparr>obj_expr = objective_rule self2 mdl2, obj_active = True\<rparr> \<and>
         model_squared_objective mdl2 = None \<and>
         expr_val \<rho> (objective_rule self1 mdl1) =
           (1 - self_tau self1) * (\<Sum>i\<leftarrow>[0..<length (self_y self1)]. \<rho> (epsilon_plus i))
           + self_tau self1 * (\<Sum>i\<leftarrow>[0..<length (self_y self1)]. \<rho> (epsilon_minus i)) \<and>
         expr_val \<rho> (objective_rule self2 mdl2) =
           (1 - self_tau self2) * (\<Sum>i\<leftarrow>[0..<length (self_y self2)]. \<rho> (epsilon_plus i))
           + self_tau self2 * (\<Sum>i\<leftarrow>[0..<length (self_y self2)]. \<rho> (epsilon_minus i)) \<and>
         (self_tau self1 = 1 / 2 \<longrightarrow>
            expr_val \<rho> (objective_rule self1 mdl1) =
              1 / 2 * (\<Sum>i\<leftarrow>[0..<length (self_y self1)]. \<rho> (epsilon_plus i))
              + 1 / 2 * (\<Sum>i\<leftarrow>[0..<length (self_y self1)]. \<rho> (epsilon_minus i))) \<and>
         linear_expr (objective_rule self1 mdl1) \<and>
         linear_expr (objective_rule self2 mdl2) \<and>
         (self_y self1 \<noteq> [] \<longrightarrow>
            \<not> linear_expr (squared_objective_rule self1 mdl1) \<and>
            objective_rule self1 mdl1 \<noteq> squared_objective_rule self1 mdl1)"
proof -
  note o1 = CQRZG1_init_objective [OF assms(1)]
  note o2 = CQRZG2_init_objective [OF assms(2)]
  have v1: "expr_val \<rho> (objective_rule self1 mdl1) =
           (1 - self_tau self1) * (\<Sum>i\<leftarrow>[0..<length (self_y self1)]. \<rho> (epsilon_plus i))
           + self_tau self1 * (\<Sum>i\<leftarrow>[0..<length (self_y self1)]. \<rho> (epsilon_minus i))"
    by (simp add: expr_val_objective o1(3))
  have v2: "expr_val \<rho> (objective_rule self2 mdl2) =
           (1 - self_tau self2) * (\<Sum>i\<leftarrow>[0..<length (self_y self2)]. \<rho> (epsilon_plus i))
           + self_tau self2 * (\<Sum>i\<leftarrow>[0..<length (self_y self2)]. \<rho> (epsilon_minus i))"
    by (simp add: expr_val_objective o2(3))
  have h: "self_tau self1 = 1 / 2 \<Longrightarrow>
            expr_val \<rho> (objective_rule self1 mdl1) =
              1 / 2 * (\<Sum>i\<leftarrow>[0..<length (self_y self1)]. \<rho> (epsilon_plus i))
              + 1 / 2 * (\<Sum>i\<leftarrow>[0..<length (self_y self1)]. \<rho> (epsilon_minus i))"
  proof -
    assume t: "self_tau self1 = 1 / 2"
    then have "1 - self_tau self1 = 1 / 2" by simp
    with v1 t show ?thesis by (simp only:)
  qed
  have n: "self_y self1 \<noteq> [] \<Longrightarrow> \<not> linear_expr (squared_objective_rule self1 mdl1)"
    by (rule not_linear_squared_objective) (simp add: o1(3))
  have d: "self_y self1 \<noteq> [] \<Longrightarrow> objective_rule self1 mdl1 \<noteq> squared_objective_rule self1 mdl1"
    using n linear_objective [of self1 mdl1] by metis
  from o1(1,2) o2(1,2) v1 v2 h n d linear_objective [of self1 mdl1] linear_objective [of self2 mdl2]
  show ?thesis by blast
qed

theorem quantile_objective_witness:
  "bindE (CQRZG1_init example1) (\<lambda>m. Inr (model_objective m)) =
     Inr \<lparr>obj_expr = Add (Mul (Num (1 / 2)) (Add (Add (Num 0) (V (epsilon_plus 0))) (V (epsilon_plus 1))))
                         (Mul (Num (1 / 2)) (Add (Add (Num 0) (V (epsilon_minus 0))) (V (epsilon_minus 1)))),
          obj_active = True\<rparr> \<and>
   bindE (CQRZG1_init example1)
       (\<lambda>m. Inr (expr_val (\<lambda>v. case v of epsilon_plus i \<Rightarrow> 3 | epsilon_minus i \<Rightarrow> 5 | _ \<Rightarrow> 0)
                 (objective_rule example1 m))) = Inr 8 \<and>
   bindE (CQRZG2_init example2) (\<lambda>m. Inr (obj_active (model_objective m))) = Inr True"
proof -
  obtain m1 where h1: "CQRZG1_init example1 = Inr m1"
    by (simp add: example1_def CQRZG1_init_def rule_defs run_defs)
  obtain m2 where h2: "CQRZG2_init example2 = Inr m2"
    by (simp add: example2_def CQRZG2_init_def rule_defs run_defs)
  note q = quantile_objective [OF h1 h2,
      of "\<lambda>v. case v of epsilon_plus i \<Rightarrow> 3 | epsilon_minus i \<Rightarrow> 5 | _ \<Rightarrow> 0"]
  from CQRZG1_init_Inr_D [OF h1] have I: "model_I m1 = [0, 1]"
    by (auto simp: example1_def upt_rec)
  from q I have "model_objective m1 =
     \<lparr>obj_expr = Add (Mul (Num (1 / 2)) (Add (Add (Num 0) (V (epsilon_plus 0))) (V (epsilon_plus 1))))
                         (Mul (Num (1 / 2)) (Add (Add (Num 0) (V (epsilon_minus 0))) (V (epsilon_minus 1)))),
          obj_active = True\<rparr>"
    by (simp add: objective_rule_def pysum_def example1_def)
  moreover from q have "expr_val (\<lambda>v. case v of epsilon_plus i \<Rightarrow> 3 | epsilon_minus i \<Rightarrow> 5 | _ \<Rightarrow> 0)
                 (objective_rule example1 m1) = 8"
    by (simp add: example1_def upt_rec)
  moreover from q have "obj_active (model_objective m2) = True" by simp
  ultimately show ?thesis using h1 h2 by simp
qed

text \<open>
  C9. An instance with the additive error term, variable returns to scale and a
  frontier type that is neither \<^verbatim>\<open>FUN_PROD\<close> nor \<^verbatim>\<open>FUN_COST\<close>: the selection of the
  Afriat rule and of the sweet-spot rule returns a rule and raises nothing; the
  Afriat rule then raises a NameError at the first observation, which ends the
  constructor; with no observation the constructor returns a model.
\<close>

theorem other_frontier_type_selection:
  "\<not> isl (afriat_rule example_other_fun :: error + (index_sets \<Rightarrow> nat \<Rightarrow> error + constr)) \<and>
   \<not> isl (sweet_rule example_other_fun :: error + (index_sets \<Rightarrow> nat \<Rightarrow> nat \<Rightarrow> error + constr)) \<and>
   bindE (afriat_rule example_other_fun) (\<lambda>r. r example_sets 0) = Inl NameError \<and>
   CQRZG1_init example_other_fun = Inl NameError \<and>
   \<not> isl (CQRZG1_init example_other_fun_empty)"
  by (simp add: example_other_fun_def example_other_fun_empty_def example_sets_def
      CQRZG1_init_def rule_defs run_defs)

text \<open>
  C10, the claim as stated fails: a contextual matrix with two rows and no column is
  accepted by the constructor, which returns a model.
\<close>

theorem no_columns_counterexample:
  "self_z example_no_columns = Some [[], []] \<and>
   \<not> isl (CQRZG1_init example_no_columns) \<and>
   map_sum id model_K (CQRZG1_init example_no_columns) = Inr []"
  by (simp add: example_no_columns_def CQRZG1_init_def rule_defs run_defs)

text \<open>
  C10, amended. A constructor of a contextual class fails when \<open>z\<close> is \<^verbatim>\<open>None\<close> and
  when \<open>z\<close> has no row: with a non-empty \<open>x\<close> the error is the TypeError of \<^verbatim>\<open>None[0]\<close>,
  respectively the IndexError of \<^verbatim>\<open>[][0]\<close>, raised where the contextual index set is
  built from \<^verbatim>\<open>len(z[0])\<close>. A model that is constructed has a contextual matrix with
  a first row, and its contextual index set is the index range of that row.
\<close>

theorem contextual_matrix_required:
  "(self_z self1 = None \<or> self_z self1 = Some [] \<longrightarrow>
      isl (CQRZG1_init self1) \<and> isl (CERZG1_init self1) \<and>
      (self_x self1 \<noteq> [] \<longrightarrow>
         CQRZG1_init self1 = Inl (if self_z self1 = None then TypeError else IndexError) \<and>
         CERZG1_init self1 = Inl (if self_z self1 = None then TypeError else IndexError))) \<and>
   (self_z self2 = None \<or> self_z self2 = Some [] \<longrightarrow>
      isl (CQRZG2_init self2) \<and> isl (CERZG2_init self2) \<and>
      (self_x self2 \<noteq> [] \<longrightarrow>
         CQRZG2_init self2 = Inl (if self_z self2 = None then TypeError else IndexError) \<and>
         CERZG2_init self2 = Inl (if self_z self2 = None then TypeError else IndexError))) \<and>
   (CQRZG1_init self1 = Inr mdl \<longrightarrow>
      (\<exists>row rows. self_z self1 = Some (row # rows) \<and> model_K mdl = [0..<length row]))"
  using CERZG1_init_z [of self1] CERZG2_init_z [of self2] CQRZG1_init_K [of self1 mdl]
  by blast

theorem contextual_matrix_required_witness:
  "CQRZG1_init (example1\<lparr>self_z := None\<rparr>) = Inl TypeError \<and>
   CERZG1_init (example1\<lparr>self_z := None\<rparr>) = Inl TypeError \<and>
   CQRZG2_init (example2\<lparr>self_z := Some []\<rparr>) = Inl IndexError \<and>
   CERZG2_init (example2\<lparr>self_z := Some []\<rparr>) = Inl IndexError \<and>
   bindE (CQRZG1_init example1) (\<lambda>m. Inr (model_K m)) = Inr [0]"
proof -
  obtain m1 where h1: "CQRZG1_init example1 = Inr m1"
    by (simp add: example1_def CQRZG1_init_def rule_defs run_defs)
  from contextual_matrix_required [of "example1\<lparr>self_z := None\<rparr>" "example2\<lparr>self_z := Some []\<rparr>"]
  have "CQRZG1_init (example1\<lparr>self_z := None\<rparr>) = Inl TypeError"
    and "CERZG1_init (example1\<lparr>self_z := None\<rparr>) = Inl TypeError"
    and "CQRZG2_init (example2\<lparr>self_z := Some []\<rparr>) = Inl IndexError"
    and "CERZG2_init (example2\<lparr>self_z := Some []\<rparr>) = Inl IndexError"
    by (simp_all add: example1_def example2_def)
  moreover from contextual_matrix_required [of example1 example2 m1] h1
  have "model_K m1 = [0]" by (auto simp: example1_def)
  ultimately show ?thesis using h1 by simp
qed

end
